theory Spec2Isabelle
  imports Main "HOL-Library.Char_ord" "HOL-Library.List_Lexorder"
begin

section \<open>Library values used by the package\<close>

text \<open>
  The package \<open>reversehttp\<close> is written against Go's \<open>time\<close>, \<open>fmt\<close> and \<open>net/http\<close>.
  The few library values it reads are written out here; the library functions whose
  result depends on a parser or a serialiser (\<open>time.ParseDuration\<close>,
  \<open>Duration.String\<close>, \<open>http.ReadResponse\<close>, \<open>http.ReadRequest\<close>, \<open>Request.Write\<close>)
  are parameters of the model, collected in the record \<open>lib\<close> further down.
\<close>

text \<open>\<open>time.Duration\<close> is an int64 count of nanoseconds. The package only copies and
  compares durations, so no arithmetic can overflow and \<open>int\<close> is exact.\<close>

type_synonym Duration = int

definition Millisecond :: Duration where
  "Millisecond = 1000000"

definition Minute :: Duration where
  "Minute = 60000000000"

definition CRLF :: string where
  "CRLF = [CHR 0x0D, CHR 0x0A]"

text \<open>\<open>fmt\<close>'s verb \<open>%d\<close> on an \<open>int\<close>.\<close>

fun digits10 :: "nat \<Rightarrow> string" where
  "digits10 n =
     (if n < 10 then [char_of (48 + n)]
      else digits10 (n div 10) @ [char_of (48 + n mod 10)])"

definition fmt_d :: "int \<Rightarrow> string" where
  "fmt_d i = (if i < 0 then CHR ''-'' # digits10 (nat (- i)) else digits10 (nat i))"

text \<open>The status codes \<open>net/http\<close> names, and \<open>http.StatusText\<close>, which gives the empty
  string for a code it does not know.\<close>

definition StatusOK :: int where "StatusOK = 200"
definition StatusNoContent :: int where "StatusNoContent = 204"
definition StatusBadRequest :: int where "StatusBadRequest = 400"
definition StatusGone :: int where "StatusGone = 410"

definition StatusText_table :: "(int \<times> string) list" where
  "StatusText_table =
    [(100, ''Continue''), (101, ''Switching Protocols''), (102, ''Processing''),
     (103, ''Early Hints''),
     (200, ''OK''), (201, ''Created''), (202, ''Accepted''),
     (203, ''Non-Authoritative Information''), (204, ''No Content''),
     (205, ''Reset Content''), (206, ''Partial Content''), (207, ''Multi-Status''),
     (208, ''Already Reported''), (226, ''IM Used''),
     (300, ''Multiple Choices''), (301, ''Moved Permanently''), (302, ''Found''),
     (303, ''See Other''), (304, ''Not Modified''), (305, ''Use Proxy''),
     (307, ''Temporary Redirect''), (308, ''Permanent Redirect''),
     (400, ''Bad Request''), (401, ''Unauthorized''), (402, ''Payment Required''),
     (403, ''Forbidden''), (404, ''Not Found''), (405, ''Method Not Allowed''),
     (406, ''Not Acceptable''), (407, ''Proxy Authentication Required''),
     (408, ''Request Timeout''), (409, ''Conflict''), (410, ''Gone''),
     (411, ''Length Required''), (412, ''Precondition Failed''),
     (413, ''Request Entity Too Large''), (414, ''Request URI Too Long''),
     (415, ''Unsupported Media Type''), (416, ''Requested Range Not Satisfiable''),
     (417, ''Expectation Failed''),
     (418, [CHR ''I'', CHR 0x27] @ ''m a teapot''),
     (421, ''Misdirected Request''), (422, ''Unprocessable Entity''), (423, ''Locked''),
     (424, ''Failed Dependency''), (425, ''Too Early''), (426, ''Upgrade Required''),
     (428, ''Precondition Required''), (429, ''Too Many Requests''),
     (431, ''Request Header Fields Too Large''),
     (451, ''Unavailable For Legal Reasons''),
     (500, ''Internal Server Error''), (501, ''Not Implemented''), (502, ''Bad Gateway''),
     (503, ''Service Unavailable''), (504, ''Gateway Timeout''),
     (505, ''HTTP Version Not Supported''), (506, ''Variant Also Negotiates''),
     (507, ''Insufficient Storage''), (508, ''Loop Detected''), (510, ''Not Extended''),
     (511, ''Network Authentication Required'')]"

definition StatusText :: "int \<Rightarrow> string" where
  "StatusText code = (case map_of StatusText_table code of None \<Rightarrow> [] | Some s \<Rightarrow> s)"

subsection \<open>\<open>http.Header\<close>\<close>

text \<open>
  \<open>http.Header\<close> is a \<open>map[string][]string\<close>. It is kept as an association list whose
  keys are distinct: \<open>Header_Add\<close> appends a value under the canonical form of the key,
  \<open>Header_Get\<close> reads the first value under it (the empty string when there is none),
  and \<open>Header_Write\<close> prints one line \<open>Name: Value\<close> per value, keys in byte order.
  As \<open>net/http\<close> does, it leaves out a key that is not a valid field name, and prints
  a value with its line breaks turned into spaces and its outer white space removed.
\<close>

type_synonym Header = "(string \<times> string list) list"

definition is_lower :: "char \<Rightarrow> bool" where
  "is_lower c = (CHR ''a'' \<le> c \<and> c \<le> CHR ''z'')"

definition is_upper :: "char \<Rightarrow> bool" where
  "is_upper c = (CHR ''A'' \<le> c \<and> c \<le> CHR ''Z'')"

definition is_digit :: "char \<Rightarrow> bool" where
  "is_digit c = (CHR ''0'' \<le> c \<and> c \<le> CHR ''9'')"

definition to_upper :: "char \<Rightarrow> char" where
  "to_upper c = (if is_lower c then char_of (of_char c - (32::nat)) else c)"

definition to_lower :: "char \<Rightarrow> char" where
  "to_lower c = (if is_upper c then char_of (of_char c + (32::nat)) else c)"

definition validHeaderFieldByte :: "char \<Rightarrow> bool" where
  "validHeaderFieldByte c =
     (is_lower c \<or> is_upper c \<or> is_digit c \<or>
      c \<in> set ([CHR 0x21, CHR 0x23, CHR 0x24, CHR 0x25, CHR 0x26, CHR 0x27, CHR 0x2A,
                 CHR 0x2B, CHR 0x2D, CHR 0x2E, CHR 0x5E, CHR 0x5F, CHR 0x60, CHR 0x7C,
                 CHR 0x7E]))"

primrec canonical_bytes :: "bool \<Rightarrow> string \<Rightarrow> string" where
  "canonical_bytes upper [] = []"
| "canonical_bytes upper (c # cs) =
     (if upper then to_upper c else to_lower c) # canonical_bytes (c = CHR ''-'') cs"

definition CanonicalMIMEHeaderKey :: "string \<Rightarrow> string" where
  "CanonicalMIMEHeaderKey s =
     (if list_all validHeaderFieldByte s then canonical_bytes True s else s)"

primrec Header_append :: "string \<Rightarrow> string \<Rightarrow> Header \<Rightarrow> Header" where
  "Header_append k v [] = [(k, [v])]"
| "Header_append k v (e # h) =
     (if fst e = k then (k, snd e @ [v]) # h else e # Header_append k v h)"

definition Header_Add :: "Header \<Rightarrow> string \<Rightarrow> string \<Rightarrow> Header" where
  "Header_Add h key v = Header_append (CanonicalMIMEHeaderKey key) v h"

definition Header_Get :: "Header \<Rightarrow> string \<Rightarrow> string" where
  "Header_Get h key =
     (case map_of h (CanonicalMIMEHeaderKey key) of
        None \<Rightarrow> []
      | Some [] \<Rightarrow> []
      | Some (v # _) \<Rightarrow> v)"

definition headerNewlineToSpace :: "string \<Rightarrow> string" where
  "headerNewlineToSpace v = map (\<lambda>c. if c = CHR 0x0A \<or> c = CHR 0x0D then CHR '' '' else c) v"

definition isASCIISpace :: "char \<Rightarrow> bool" where
  "isASCIISpace c = (c = CHR '' '' \<or> c = CHR 0x09 \<or> c = CHR 0x0A \<or> c = CHR 0x0D)"

definition TrimString :: "string \<Rightarrow> string" where
  "TrimString v = rev (dropWhile isASCIISpace (rev (dropWhile isASCIISpace v)))"

definition ValidHeaderFieldName :: "string \<Rightarrow> bool" where
  "ValidHeaderFieldName k = (k \<noteq> [] \<and> list_all validHeaderFieldByte k)"

definition header_lines :: "string \<times> string list \<Rightarrow> string" where
  "header_lines e =
     concat (map (\<lambda>v. fst e @ '': '' @ TrimString (headerNewlineToSpace v) @ CRLF) (snd e))"

definition Header_Write :: "Header \<Rightarrow> string" where
  "Header_Write h =
     concat (map header_lines (filter (\<lambda>e. ValidHeaderFieldName (fst e)) (sort_key fst h)))"

section \<open>The client's ResponseWriter\<close>

text \<open>
  \<open>type ResponseWriter struct { w io.WriteCloser; header http.Header; headerSent bool }\<close>.
  The field \<open>w\<close> holds the bytes handed to the sink so far, in order; \<open>header\<close> is
  \<open>None\<close> while the map is nil.
\<close>

record ResponseWriter =
  w :: string
  header :: "Header option"
  headerSent :: bool

definition Header :: "ResponseWriter \<Rightarrow> Header \<times> ResponseWriter" where
  "Header rw =
     (case header rw of
        None \<Rightarrow> ([], rw\<lparr>header := Some []\<rparr>)
      | Some h \<Rightarrow> (h, rw))"

text \<open>\<open>rw.header.Write(rw.w)\<close> reads the field, not \<open>Header()\<close>: a nil map prints
  nothing.\<close>

definition WriteHeader :: "int \<Rightarrow> ResponseWriter \<Rightarrow> ResponseWriter" where
  "WriteHeader statusCode rw =
     (if \<not> headerSent rw then
        rw\<lparr>w := w rw @ ''HTTP/1.1 '' @ fmt_d statusCode @ '' '' @ StatusText statusCode @ CRLF
                  @ (case header rw of None \<Rightarrow> [] | Some h \<Rightarrow> Header_Write h)
                  @ CRLF,
           headerSent := True\<rparr>
      else rw)"

definition Write :: "string \<Rightarrow> ResponseWriter \<Rightarrow> ResponseWriter" where
  "Write b rw =
     (let rw1 = (if \<not> headerSent rw then WriteHeader StatusOK rw else rw)
      in rw1\<lparr>w := w rw1 @ b\<rparr>)"

text \<open>What a handler can do with the writer it is given: add a header through
  \<open>Header()\<close>, write body bytes, or set the status.\<close>

datatype rw_call = CallHeaderAdd string string | CallWrite string | CallWriteHeader int

primrec rw_apply :: "rw_call \<Rightarrow> ResponseWriter \<Rightarrow> ResponseWriter" where
  "rw_apply (CallHeaderAdd k v) rw =
     (let (h, rw1) = Header rw in rw1\<lparr>header := Some (Header_Add h k v)\<rparr>)"
| "rw_apply (CallWrite b) rw = Write b rw"
| "rw_apply (CallWriteHeader code) rw = WriteHeader code rw"

definition rw_run :: "rw_call list \<Rightarrow> ResponseWriter \<Rightarrow> ResponseWriter" where
  "rw_run calls rw = fold rw_apply calls rw"

text \<open>\<open>&ResponseWriter{w: reqBodyWriter}\<close>, the writer \<open>ConnectAndServe\<close> hands to the
  handler.\<close>

definition new_ResponseWriter :: ResponseWriter where
  "new_ResponseWriter = \<lparr>w = [], header = None, headerSent = False\<rparr>"

text \<open>
  The description of the emitted bytes, to compare the writer with: the status of a call
  sequence is the code of its first call that is a \<open>Write\<close> (200) or a \<open>WriteHeader\<close>;
  the headers that count are those added before that call; the body is every \<open>Write\<close>'s
  bytes in order.
\<close>

primrec first_status :: "rw_call list \<Rightarrow> int option" where
  "first_status [] = None"
| "first_status (c # cs) =
     (case c of
        CallHeaderAdd k v \<Rightarrow> first_status cs
      | CallWrite b \<Rightarrow> Some StatusOK
      | CallWriteHeader code \<Rightarrow> Some code)"

primrec headers_before :: "rw_call list \<Rightarrow> Header \<Rightarrow> Header" where
  "headers_before [] h = h"
| "headers_before (c # cs) h =
     (case c of
        CallHeaderAdd k v \<Rightarrow> headers_before cs (Header_Add h k v)
      | CallWrite b \<Rightarrow> h
      | CallWriteHeader code \<Rightarrow> h)"

primrec bodies :: "rw_call list \<Rightarrow> string" where
  "bodies [] = []"
| "bodies (c # cs) =
     (case c of
        CallHeaderAdd k v \<Rightarrow> bodies cs
      | CallWrite b \<Rightarrow> b @ bodies cs
      | CallWriteHeader code \<Rightarrow> bodies cs)"

definition status_and_headers :: "int \<Rightarrow> Header \<Rightarrow> string" where
  "status_and_headers code h =
     ''HTTP/1.1 '' @ fmt_d code @ '' '' @ StatusText code @ CRLF @ Header_Write h @ CRLF"

definition header_of :: "ResponseWriter \<Rightarrow> Header" where
  "header_of rw = (case header rw of None \<Rightarrow> [] | Some h \<Rightarrow> h)"

section \<open>Messages, errors and the library's codecs\<close>

text \<open>\<open>ErrSessionClosed\<close> is the package's own error value; \<open>Errorf\<close> is an error made
  by \<open>fmt.Errorf("%s", ...)\<close> with the given text; \<open>LibError\<close> is an error returned by a
  library call.\<close>

datatype error = ErrSessionClosed | Errorf string | LibError string

text \<open>What the package reads of \<open>http.Request\<close> and \<open>http.Response\<close>. A nil body is
  \<open>None\<close>.\<close>

record HTTPRequest =
  Method :: string
  URL :: string
  ReqHeader :: Header
  Body :: "string option"

record HTTPResponse =
  StatusCode :: int
  Status :: string
  RespHeader :: Header
  RespBody :: string

definition body_bytes :: "HTTPRequest \<Rightarrow> string" where
  "body_bytes r = (case Body r of None \<Rightarrow> [] | Some b \<Rightarrow> b)"

text \<open>
  The library calls whose results the package only passes on. \<open>Request_Write\<close> gives the
  bytes \<open>req.Write(w)\<close> hands to \<open>w\<close> and the error it returns, if any.
\<close>

record lib =
  ParseDuration :: "string \<Rightarrow> error + Duration"
  Duration_String :: "Duration \<Rightarrow> string"
  ReadResponse :: "string \<Rightarrow> HTTPRequest \<Rightarrow> error + HTTPResponse"
  ReadRequest :: "string \<Rightarrow> error + HTTPRequest"
  Request_Write :: "HTTPRequest \<Rightarrow> string \<times> error option"

section \<open>Sessions\<close>

text \<open>\<open>type Response struct { Err error; HTTP *http.Response }\<close> and
  \<open>type Request struct { HTTP *http.Request; Response chan Response }\<close>. The channel of
  a \<open>Request\<close> is an address in the store \<open>chans\<close> of the world below.\<close>

record Response =
  Err :: "error option"
  HTTP :: "HTTPResponse option"

record Request =
  HTTP :: HTTPRequest
  Response :: nat

text \<open>
  A reply channel is unbuffered and has one receiver, the \<open>RoundTrip\<close> call that made
  it. \<open>owner\<close> says where that call stands: blocked in the hand-off \<open>s.Requests <- req\<close>
  (line 63), blocked in \<open><-req.Response\<close> (line 65), returned with the value it
  received, or panicked in the hand-off because the channel \<open>Requests\<close> was closed.
\<close>

datatype caller = Sending | Receiving | Returned Response | Panicked

record ReplyChan =
  owner :: caller
  chan_closed :: bool

text \<open>
  \<open>type Session struct\<close>. \<open>handlerMu\<close> is true while the mutex is held. The channel
  \<open>Requests\<close> is unbuffered: its state is the queue of requests whose senders are
  blocked on it, oldest first, and whether it is closed. The channel \<open>closed\<close> carries
  no value, so only whether it is closed. \<open>closer\<close> is the period of the armed idle
  timer.
\<close>

record Session =
  handlerMu :: bool
  PendingRequest :: "Request option"
  Requests :: "Request list"
  Requests_closed :: bool
  closed :: bool
  closer :: "Duration option"

text \<open>\<open>type Server struct\<close>. \<open>OnConnect\<close> says whether a callback is set, \<open>doInit\<close>
  whether the \<open>sync.Once\<close> has run; \<open>sessions\<close> maps an id to the address of its
  session.\<close>

record Server =
  LongPollMinTimeout :: Duration
  LongPollMaxTimeout :: Duration
  SessionIdleTimeout :: Duration
  OnConnect :: bool
  doInit :: bool
  sessions :: "string \<rightharpoonup> nat"

text \<open>
  The server together with the objects it shares with other goroutines: the sessions
  by address, the reply channels by address (addresses below \<open>nextSession\<close> and
  \<open>nextChan\<close> are allocated), and the sessions for which \<open>go s.OnConnect(session)\<close> was
  started, oldest first.
\<close>

record World =
  server :: Server
  heap :: "nat \<Rightarrow> Session"
  nextSession :: nat
  chans :: "nat \<Rightarrow> ReplyChan"
  nextChan :: nat
  connected :: "nat list"

definition new_Session :: Session where
  "new_Session =
     \<lparr>handlerMu = False, PendingRequest = None, Requests = [], Requests_closed = False,
      closed = False, closer = None\<rparr>"

definition set_session :: "nat \<Rightarrow> Session \<Rightarrow> World \<Rightarrow> World" where
  "set_session a s W = W\<lparr>heap := (heap W)(a := s)\<rparr>"

definition set_owner :: "nat \<Rightarrow> caller \<Rightarrow> World \<Rightarrow> World" where
  "set_owner c x W = W\<lparr>chans := (chans W)(c := (chans W c)\<lparr>owner := x\<rparr>)\<rparr>"

subsection \<open>Channel operations\<close>

text \<open>
  \<open>ch <- v\<close> on a reply channel: a panic when the channel is closed; a hand-over when
  its receiver is waiting, which then returns \<open>v\<close>; otherwise the sender blocks, and
  since the only receiver of the channel receives once, it blocks for good.
\<close>

datatype 'a blocking = Done 'a | Blocks | Panics

definition send :: "nat \<Rightarrow> Response \<Rightarrow> World \<Rightarrow> World blocking" where
  "send c v W =
     (if chan_closed (chans W c) then Panics
      else case owner (chans W c) of
             Receiving \<Rightarrow> Done (set_owner c (Returned v) W)
           | Sending \<Rightarrow> Blocks
           | Returned u \<Rightarrow> Blocks
           | Panicked \<Rightarrow> Blocks)"

definition close_chan :: "nat \<Rightarrow> World \<Rightarrow> World blocking" where
  "close_chan c W =
     (if chan_closed (chans W c) then Panics
      else Done (W\<lparr>chans := (chans W)(c := (chans W c)\<lparr>chan_closed := True\<rparr>)\<rparr>))"

text \<open>The sender of a request that a handler takes from \<open>Requests\<close> goes on to line 65;
  the senders still blocked when \<open>Requests\<close> is closed panic.\<close>

definition sender_proceeds :: "nat \<Rightarrow> World \<Rightarrow> World" where
  "sender_proceeds c W =
     (case owner (chans W c) of
        Sending \<Rightarrow> set_owner c Receiving W
      | Receiving \<Rightarrow> W
      | Returned u \<Rightarrow> W
      | Panicked \<Rightarrow> W)"

definition sender_panics :: "nat \<Rightarrow> World \<Rightarrow> World" where
  "sender_panics c W =
     (case owner (chans W c) of
        Sending \<Rightarrow> set_owner c Panicked W
      | Receiving \<Rightarrow> W
      | Returned u \<Rightarrow> W
      | Panicked \<Rightarrow> W)"

subsection \<open>\<open>Session.Close\<close> and \<open>Session.RoundTrip\<close>\<close>

text \<open>\<open>close(s.closed); close(s.Requests)\<close>. Closing a closed channel panics.\<close>

definition Close :: "nat \<Rightarrow> World \<Rightarrow> string + World" where
  "Close a W =
     (let s = heap W a in
      if closed s then Inl ''close of closed channel''
      else if Requests_closed s then Inl ''close of closed channel''
      else Inr (fold sender_panics (map Response (Requests s))
                  (set_session a (s\<lparr>closed := True, Requests_closed := True, Requests := []\<rparr>) W)))"

text \<open>
  A call of \<open>RoundTrip\<close> up to its first blocking point: it returns at once on a closed
  session; otherwise it makes its reply channel and blocks in the hand-off (or panics
  there, when \<open>Requests\<close> is closed). A call that waits on channel \<open>c\<close> returns when a
  value is handed over on \<open>c\<close>, with that value's \<open>HTTP\<close> and \<open>Err\<close>.
\<close>

datatype roundtrip = Returns "HTTPResponse option" "error option" | Waits nat | SendPanics

definition RoundTrip :: "nat \<Rightarrow> HTTPRequest \<Rightarrow> World \<Rightarrow> roundtrip \<times> World" where
  "RoundTrip a r W =
     (let s = heap W a in
      if closed s then (Returns None (Some ErrSessionClosed), W)
      else
        let c = nextChan W;
            req = \<lparr>HTTP = r, Response = c\<rparr>;
            W1 = W\<lparr>chans := (chans W)(c := \<lparr>owner = Sending, chan_closed = False\<rparr>),
                   nextChan := c + 1\<rparr>
        in if Requests_closed s then (SendPanics, set_owner c Panicked W1)
           else (Waits c, set_session a (s\<lparr>Requests := Requests s @ [req]\<rparr>) W1))"

definition RoundTrip_result :: "World \<Rightarrow> nat \<Rightarrow> (HTTPResponse option \<times> error option) option" where
  "RoundTrip_result W c =
     (case owner (chans W c) of
        Returned v \<Rightarrow> Some (Response.HTTP v, Err v)
      | Sending \<Rightarrow> None
      | Receiving \<Rightarrow> None
      | Panicked \<Rightarrow> None)"

section \<open>\<open>Server.ServeHTTP\<close>\<close>

text \<open>
  What a poll is answered with: the status given to \<open>w.WriteHeader\<close>, the headers of
  \<open>w.Header()\<close> at that moment and the bytes written to \<open>w\<close>. A handler that blocks for
  good answers nothing and keeps the session's mutex; one that panics is recovered by
  \<open>net/http\<close> after its deferred \<open>Unlock\<close>.
\<close>

datatype outcome = Answered int Header string | Blocked | Panicked_handler

text \<open>What the surroundings decide for one poll: the id \<open>uuid.NewV4().String()\<close> gives
  if a session is made, and whether the timer of the \<open>select\<close> is what ends the wait.\<close>

record env =
  fresh :: string
  timer_first :: bool

text \<open>Lines 82 to 89, the body of \<open>s.doInit.Do\<close>.\<close>

definition init_once :: "Server \<Rightarrow> Server" where
  "init_once s =
     (if doInit s then s
      else s\<lparr>LongPollMaxTimeout :=
                (if LongPollMaxTimeout s = 0 then 2 * Minute else LongPollMaxTimeout s),
             SessionIdleTimeout :=
                (if SessionIdleTimeout s = 0 then 10 * Minute else SessionIdleTimeout s),
             doInit := True\<rparr>)"

text \<open>Lines 91 to 106: the session of the poll, made and entered in the table when the
  id of the poll names none.\<close>

definition bind_session :: "HTTPRequest \<Rightarrow> string \<Rightarrow> World \<Rightarrow> string \<times> nat \<times> World" where
  "bind_session r new_id W =
     (let sessionID = Header_Get (ReqHeader r) ''X-Session'' in
      case sessions (server W) sessionID of
        Some a \<Rightarrow> (sessionID, a, W)
      | None \<Rightarrow>
          (let a = nextSession W in
           (new_id, a,
            W\<lparr>heap := (heap W)(a := new_Session),
              nextSession := a + 1,
              server := (server W)\<lparr>sessions := (sessions (server W))(new_id \<mapsto> a)\<rparr>,
              connected := (if OnConnect (server W) then connected W @ [a] else connected W)\<rparr>)))"

text \<open>Lines 109 to 116: the mutex is taken and the idle timer armed anew.\<close>

definition lock_and_arm :: "nat \<Rightarrow> World \<Rightarrow> World" where
  "lock_and_arm a W =
     set_session a ((heap W a)\<lparr>handlerMu := True,
                               closer := Some (SessionIdleTimeout (server W))\<rparr>) W"

text \<open>The deferred \<open>Unlock\<close>, which a handler that blocks for good never reaches.\<close>

definition unlock :: "nat \<Rightarrow> outcome \<Rightarrow> World \<Rightarrow> World" where
  "unlock a out W =
     (if out = Blocked then W else set_session a ((heap W a)\<lparr>handlerMu := False\<rparr>) W)"

text \<open>Lines 118 to 123, the function the idle timer runs.\<close>

definition closer_fires :: "string \<Rightarrow> World \<Rightarrow> string + World" where
  "closer_fires sessionID W =
     (case sessions (server W) sessionID of
        None \<Rightarrow> Inr W
      | Some a \<Rightarrow>
          (case Close a W of
             Inl p \<Rightarrow> Inl p
           | Inr W1 \<Rightarrow>
               Inr (W1\<lparr>server := (server W1)\<lparr>sessions := (sessions (server W1))(sessionID := None)\<rparr>\<rparr>)))"

text \<open>Lines 126 to 136, the response drain. \<open>Stop\<close> is a return from the handler.\<close>

datatype drained = Continue World | Stop World outcome

definition drain :: "lib \<Rightarrow> HTTPRequest \<Rightarrow> nat \<Rightarrow> Header \<Rightarrow> World \<Rightarrow> drained" where
  "drain L r a hdr W =
     (case PendingRequest (heap W a) of
        None \<Rightarrow> Continue W
      | Some p \<Rightarrow>
          (case ReadResponse L (body_bytes r) (HTTP p) of
             Inl err \<Rightarrow>
               (case send (Response p) \<lparr>Err = Some err, HTTP = None\<rparr> W of
                  Done W1 \<Rightarrow> Stop W1 (Answered StatusBadRequest hdr [])
                | Blocks \<Rightarrow> Stop W Blocked
                | Panics \<Rightarrow> Stop W Panicked_handler)
           | Inr resp \<Rightarrow>
               (case send (Response p) \<lparr>Err = None, HTTP = Some resp\<rparr> W of
                  Done W1 \<Rightarrow>
                    (case close_chan (Response p) W1 of
                       Done W2 \<Rightarrow>
                         Continue (set_session a ((heap W2 a)\<lparr>PendingRequest := None\<rparr>) W2)
                     | Blocks \<Rightarrow> Stop W1 Blocked
                     | Panics \<Rightarrow> Stop W1 Panicked_handler)
                | Blocks \<Rightarrow> Stop W Blocked
                | Panics \<Rightarrow> Stop W Panicked_handler)))"

text \<open>Lines 139 to 160: the timeout of the poll. \<open>Inl\<close> is the return with status 400;
  both carry the headers of the answer.\<close>

definition too_high :: "lib \<Rightarrow> Server \<Rightarrow> string" where
  "too_high L srv =
     ''timeout value too high, forcing to maximum '' @ Duration_String L (LongPollMaxTimeout srv)"

definition too_low :: "lib \<Rightarrow> Server \<Rightarrow> string" where
  "too_low L srv =
     ''timeout value too low, forcing to minimum '' @ Duration_String L (LongPollMinTimeout srv)"

definition resolve_timeout ::
  "lib \<Rightarrow> Server \<Rightarrow> HTTPRequest \<Rightarrow> Header \<Rightarrow> Header + Header \<times> Duration" where
  "resolve_timeout L srv r hdr =
     (let timeoutStr = Header_Get (ReqHeader r) ''X-Timeout'' in
      case (if timeoutStr \<noteq> [] then ParseDuration L timeoutStr else Inr Minute) of
        Inl err \<Rightarrow> Inl (Header_Add hdr ''X-Error'' ''cannot parse duration in X-Timeout header'')
      | Inr timeout \<Rightarrow>
          (let (hdr1, timeout1) =
                 (if timeout > LongPollMaxTimeout srv
                  then (Header_Add hdr ''X-Warning'' (too_high L srv), LongPollMaxTimeout srv)
                  else (hdr, timeout));
               (hdr2, timeout2) =
                 (if timeout1 < LongPollMinTimeout srv
                  then (Header_Add hdr1 ''X-Warning'' (too_low L srv), LongPollMinTimeout srv)
                  else (hdr1, timeout1))
           in Inr (hdr2, timeout2)))"

text \<open>
  Lines 162 to 180. What the \<open>select\<close> observes: the timer; or, on \<open>session.Requests\<close>,
  the request of the oldest blocked sender, or that the channel is closed. While the
  channel has neither, the handler waits, and the timer is what ends the wait.
\<close>

datatype selected = TimerFired | Received Request | ChanClosed

definition select_case :: "bool \<Rightarrow> Session \<Rightarrow> selected" where
  "select_case timer s =
     (if timer then TimerFired
      else case Requests s of
             req # rest \<Rightarrow> Received req
           | [] \<Rightarrow> if Requests_closed s then ChanClosed else TimerFired)"

definition rendezvous :: "lib \<Rightarrow> bool \<Rightarrow> nat \<Rightarrow> Header \<Rightarrow> World \<Rightarrow> World \<times> outcome" where
  "rendezvous L timer a hdr W =
     (case select_case timer (heap W a) of
        TimerFired \<Rightarrow> (W, Answered StatusNoContent hdr [])
      | ChanClosed \<Rightarrow> (W, Answered StatusGone hdr [])
      | Received req \<Rightarrow>
          (let W1 = sender_proceeds (Response req)
                      (set_session a ((heap W a)\<lparr>Requests := tl (Requests (heap W a))\<rparr>) W);
               hdr1 = Header_Add hdr ''Content-type'' ''application/x-http-request''
           in case Request_Write L (HTTP req) of
                (bytes, Some err) \<Rightarrow>
                  (case send (Response req) \<lparr>Err = Some err, HTTP = None\<rparr> W1 of
                     Done W2 \<Rightarrow> (W2, Answered StatusOK hdr1 bytes)
                   | Blocks \<Rightarrow> (W1, Blocked)
                   | Panics \<Rightarrow> (W1, Panicked_handler))
              | (bytes, None) \<Rightarrow>
                  (set_session a ((heap W1 a)\<lparr>PendingRequest := Some req\<rparr>) W1,
                   Answered StatusOK hdr1 bytes)))"

text \<open>The handler. Its third result is the duration given to \<open>time.After\<close>, when the
  handler gets there.\<close>

definition ServeHTTP ::
  "lib \<Rightarrow> HTTPRequest \<Rightarrow> env \<Rightarrow> World \<Rightarrow> World \<times> outcome \<times> Duration option" where
  "ServeHTTP L r E W =
     (let W1 = W\<lparr>server := init_once (server W)\<rparr>;
          (sessionID, a, W2) = bind_session r (fresh E) W1;
          hdr = Header_Add [] ''X-Session'' sessionID
      in if handlerMu (heap W2 a) then (W2, Blocked, None)
         else
           case drain L r a hdr (lock_and_arm a W2) of
             Stop W4 out \<Rightarrow> (unlock a out W4, out, None)
           | Continue W4 \<Rightarrow>
               (case resolve_timeout L (server W4) r hdr of
                  Inl hdr1 \<Rightarrow>
                    (unlock a (Answered StatusBadRequest hdr1 []) W4,
                     Answered StatusBadRequest hdr1 [], None)
                | Inr (hdr1, timeout) \<Rightarrow>
                    (let (W5, out) = rendezvous L (timer_first E) a hdr1 W4
                     in (unlock a out W5, out, Some timeout))))"

text \<open>The session a poll is bound to.\<close>

definition poll_session :: "HTTPRequest \<Rightarrow> env \<Rightarrow> World \<Rightarrow> nat" where
  "poll_session r E W =
     fst (snd (bind_session r (fresh E) (W\<lparr>server := init_once (server W)\<rparr>)))"

section \<open>\<open>ConnectAndServe\<close>\<close>

text \<open>\<open>http.NewRequest("POST", url, body)\<close> followed by \<open>req.Header.Add\<close>.\<close>

definition pollTimeout :: Duration where
  "pollTimeout = Minute"

definition new_POST :: "string \<Rightarrow> string option \<Rightarrow> HTTPRequest" where
  "new_POST url body = \<lparr>Method = ''POST'', URL = url, ReqHeader = [], Body = body\<rparr>"

definition add_header :: "string \<Rightarrow> string \<Rightarrow> HTTPRequest \<Rightarrow> HTTPRequest" where
  "add_header k v req = req\<lparr>ReqHeader := Header_Add (ReqHeader req) k v\<rparr>"

text \<open>A handler is the sequence of calls it makes on the writer it is given; the body
  of the next POST is what those calls hand to the pipe.\<close>

type_synonym Handler = "HTTPRequest \<Rightarrow> rw_call list"

text \<open>
  One pass through the body of the \<open>for\<close> loop (lines 224 to 265) up to its call of
  \<open>httpClient.Do\<close>: either the function returns an error, or it calls \<open>Do\<close> on a request.
\<close>

datatype iteration = Exit error | Do HTTPRequest

definition loop_body :: "lib \<Rightarrow> string \<Rightarrow> Handler \<Rightarrow> HTTPResponse \<Rightarrow> iteration" where
  "loop_body L url handler resp =
     (let sessionID = Header_Get (RespHeader resp) ''X-Session'' in
      if StatusCode resp = StatusNoContent then
        Do (add_header ''X-Session'' sessionID
             (add_header ''X-Timeout'' (Duration_String L pollTimeout) (new_POST url None)))
      else if StatusCode resp = StatusGone then Exit ErrSessionClosed
      else if StatusCode resp \<noteq> StatusOK then Exit (Errorf (Status resp))
      else
        case ReadRequest L (RespBody resp) of
          Inl err \<Rightarrow> Exit err
        | Inr serverReq \<Rightarrow>
            Do (add_header ''Content-Type'' ''application/x-http-response''
                 (add_header ''X-Session'' sessionID
                   (add_header ''X-Timeout'' (Duration_String L pollTimeout)
                     (new_POST url (Some (w (rw_run (handler serverReq) new_ResponseWriter))))))))"

text \<open>
  The loop, run against the answers \<open>httpClient.Do\<close> gives in turn. The result is the
  requests sent and how the function ends: with an error, or still waiting in \<open>Do\<close>
  when the answers given are used up.
\<close>

datatype client = Return error | Running | NilRequest

fun serve_loop ::
  "lib \<Rightarrow> string \<Rightarrow> Handler \<Rightarrow> HTTPResponse \<Rightarrow> (error + HTTPResponse) list
     \<Rightarrow> HTTPRequest list \<times> client" where
  "serve_loop L url handler resp [] =
     (case loop_body L url handler resp of
        Exit err \<Rightarrow> ([], Return err)
      | Do req \<Rightarrow> ([req], Running))"
| "serve_loop L url handler resp (answer # answers) =
     (case loop_body L url handler resp of
        Exit err \<Rightarrow> ([], Return err)
      | Do req \<Rightarrow>
          (case answer of
             Inl err \<Rightarrow> ([req], Return err)
           | Inr resp' \<Rightarrow>
               (let (reqs, res) = serve_loop L url handler resp' answers
                in (req # reqs, res))))"

text \<open>
  Lines 213 to 221 and the loop. \<open>http.NewRequest\<close> fails on a URL it cannot parse and
  the function drops that error, so the next line dereferences nil; \<open>url_ok\<close> says
  whether the URL parses. The same URL is used for every request of the loop.
\<close>

definition ConnectAndServe ::
  "lib \<Rightarrow> bool \<Rightarrow> string \<Rightarrow> Handler \<Rightarrow> (error + HTTPResponse) list
     \<Rightarrow> HTTPRequest list \<times> client" where
  "ConnectAndServe L url_ok url handler answers =
     (if \<not> url_ok then ([], NilRequest)
      else
        let req = add_header ''X-Timeout'' (Duration_String L pollTimeout) (new_POST url None) in
        case answers of
          [] \<Rightarrow> ([req], Running)
        | Inl err # rest \<Rightarrow> ([req], Return err)
        | Inr resp # rest \<Rightarrow>
            (let (reqs, res) = serve_loop L url handler resp rest in (req # reqs, res)))"

section \<open>An instance to run the model on\<close>

text \<open>
  A small instance of the library parameters, enough to run the model on the inputs of
  the repository's tests: \<open>ParseDuration\<close> and \<open>Duration.String\<close> at the durations the
  tests use (\<open>ParseDuration\<close> rejects every other string, the empty one among them, as
  the library does); \<open>ReadResponse\<close> and \<open>ReadRequest\<close> fail on an empty input with the
  library's \<open>unexpected EOF\<close>, read a message made of a first line, a blank line and
  a body, and reject any other input; \<open>Request.Write\<close> fails on a request with neither
  URL nor host, as the library does, and writes nothing then.
\<close>

text \<open>The first line of a message and what follows its CRLF; the number a string of
  decimal digits stands for.\<close>

primrec take_line :: "string \<Rightarrow> string \<times> string" where
  "take_line [] = ([], [])"
| "take_line (c # cs) =
     (if c = CHR 0x0D \<and> take 1 cs = [CHR 0x0A] then ([], drop 1 cs)
      else (let (l, rest) = take_line cs in (c # l, rest)))"

definition digits_value :: "string \<Rightarrow> int" where
  "digits_value ds = foldl (\<lambda>n c. 10 * n + (int (of_char c) - 48)) 0 ds"

definition read_response0 :: "string \<Rightarrow> error + HTTPResponse" where
  "read_response0 b =
     (if b = [] then Inl (LibError ''unexpected EOF'')
      else
        let (line, rest) = take_line b in
        if take 9 line = ''HTTP/1.1 '' \<and> take 2 rest = CRLF
        then Inr \<lparr>StatusCode = digits_value (take 3 (drop 9 line)), Status = drop 9 line,
                  RespHeader = [], RespBody = drop 2 rest\<rparr>
        else Inl (LibError ''malformed HTTP response''))"

definition read_request0 :: "string \<Rightarrow> error + HTTPRequest" where
  "read_request0 b =
     (if b = [] then Inl (LibError ''unexpected EOF'')
      else
        let (line, rest) = take_line b;
            method = takeWhile (\<lambda>c. c \<noteq> CHR '' '') line;
            target = takeWhile (\<lambda>c. c \<noteq> CHR '' '') (drop (length method + 1) line)
        in if drop (length method + 1 + length target) line = '' HTTP/1.1''
              \<and> take 2 rest = CRLF
           then Inr \<lparr>Method = method, URL = target, ReqHeader = [], Body = Some (drop 2 rest)\<rparr>
           else Inl (LibError ''malformed HTTP request''))"

definition lib0 :: lib where
  "lib0 =
     \<lparr>ParseDuration = (\<lambda>s.
         if s = ''200ms'' then Inr (200 * Millisecond)
         else if s = ''10ms'' then Inr (10 * Millisecond)
         else if s = ''1m0s'' then Inr Minute
         else Inl (LibError ''time: invalid duration'')),
      Duration_String = (\<lambda>d.
         if d = 50 * Millisecond then ''50ms''
         else if d = 150 * Millisecond then ''150ms''
         else if d = Minute then ''1m0s''
         else if d = 2 * Minute then ''2m0s''
         else fmt_d d @ ''ns''),
      ReadResponse = (\<lambda>b r. read_response0 b),
      ReadRequest = read_request0,
      Request_Write = (\<lambda>r.
         if URL r = [] then ([], Some (LibError ''http: Request.Write on Request with no Host or URL set''))
         else (Method r @ '' '' @ URL r @ '' HTTP/1.1'' @ CRLF @ Header_Write (ReqHeader r) @ CRLF
               @ body_bytes r, None))\<rparr>"

text \<open>A server value as a program declares it, \<open>Server{...}\<close> with the given timeouts,
  and the world before any poll.\<close>

definition new_Server :: "Duration \<Rightarrow> Duration \<Rightarrow> Duration \<Rightarrow> bool \<Rightarrow> Server" where
  "new_Server lo hi idle cb =
     \<lparr>LongPollMinTimeout = lo, LongPollMaxTimeout = hi, SessionIdleTimeout = idle,
      OnConnect = cb, doInit = False, sessions = Map.empty\<rparr>"

definition new_World :: "Server \<Rightarrow> World" where
  "new_World srv =
     \<lparr>server = srv, heap = (\<lambda>a. new_Session), nextSession = 0,
      chans = (\<lambda>c. \<lparr>owner = Panicked, chan_closed = True\<rparr>), nextChan = 0, connected = []\<rparr>"





section \<open>Descriptions the handler is compared with\<close>

text \<open>\<open>h.Values(key)\<close>, every value a header has, and whether a header is there at all.\<close>

definition Header_Values :: "Header \<Rightarrow> string \<Rightarrow> string list" where
  "Header_Values h key =
     (case map_of h (CanonicalMIMEHeaderKey key) of None \<Rightarrow> [] | Some vs \<Rightarrow> vs)"

definition Header_Has :: "Header \<Rightarrow> string \<Rightarrow> bool" where
  "Header_Has h key = (map_of h (CanonicalMIMEHeaderKey key) \<noteq> None)"

text \<open>
  The candidate timeout of a poll: one minute when \<open>X-Timeout\<close> is absent or empty,
  otherwise what \<open>ParseDuration\<close> makes of it. The wait is the candidate capped at the
  maximum and then raised to the minimum, and each of the two steps that changes the
  value adds its warning.
\<close>

definition candidate :: "lib \<Rightarrow> HTTPRequest \<Rightarrow> error + Duration" where
  "candidate L r =
     (if Header_Get (ReqHeader r) ''X-Timeout'' = [] then Inr Minute
      else ParseDuration L (Header_Get (ReqHeader r) ''X-Timeout''))"

definition cap_then_raise :: "Server \<Rightarrow> Duration \<Rightarrow> Duration" where
  "cap_then_raise srv t = max (LongPollMinTimeout srv) (min (LongPollMaxTimeout srv) t)"

definition warnings :: "lib \<Rightarrow> Server \<Rightarrow> Duration \<Rightarrow> string list" where
  "warnings L srv t =
     (if t > LongPollMaxTimeout srv then [too_high L srv] else [])
     @ (if min (LongPollMaxTimeout srv) t < LongPollMinTimeout srv then [too_low L srv] else [])"

definition add_warnings :: "string list \<Rightarrow> Header \<Rightarrow> Header" where
  "add_warnings ws hdr = fold (\<lambda>v h. Header_Add h ''X-Warning'' v) ws hdr"

text \<open>A poll gets to the timeout phase (line 138) when the mutex of its session is
  free and the response drain does not return.\<close>

definition reaches_timeout :: "lib \<Rightarrow> HTTPRequest \<Rightarrow> env \<Rightarrow> World \<Rightarrow> bool" where
  "reaches_timeout L r E W =
     (let (sessionID, a, W2) = bind_session r (fresh E) (W\<lparr>server := init_once (server W)\<rparr>)
      in \<not> handlerMu (heap W2 a) \<and>
         (case drain L r a (Header_Add [] ''X-Session'' sessionID) (lock_and_arm a W2) of
            Continue W4 \<Rightarrow> True
          | Stop W4 out \<Rightarrow> False))"

text \<open>The id a poll is answered with in \<open>X-Session\<close>.\<close>

definition poll_id :: "HTTPRequest \<Rightarrow> env \<Rightarrow> World \<Rightarrow> string" where
  "poll_id r E W = fst (bind_session r (fresh E) (W\<lparr>server := init_once (server W)\<rparr>))"

text \<open>What the \<open>select\<close> of a poll observes, on the session the poll is bound to.\<close>

definition poll_selects :: "HTTPRequest \<Rightarrow> env \<Rightarrow> World \<Rightarrow> selected" where
  "poll_selects r E W =
     (let (sessionID, a, W2) = bind_session r (fresh E) (W\<lparr>server := init_once (server W)\<rparr>)
      in select_case (timer_first E) (heap W2 a))"

text \<open>The headers of the answer when the handler gets to the \<open>select\<close>.\<close>

definition poll_headers :: "lib \<Rightarrow> HTTPRequest \<Rightarrow> env \<Rightarrow> World \<Rightarrow> Duration \<Rightarrow> Header" where
  "poll_headers L r E W t =
     add_warnings (warnings L (init_once (server W)) t)
       (Header_Add [] ''X-Session'' (poll_id r E W))"

text \<open>
  Worlds and polls to run the handler on: a server declared with no timeouts set and a
  callback; a first poll, which makes the session \<open>id1\<close>; later polls of that session
  with an empty body and with a body; a poll whose \<open>X-Timeout\<close> header is there with an
  empty value; a request an originator submits, and one with neither URL nor host.
\<close>

definition world0 :: World where
  "world0 = new_World (new_Server 0 0 0 True)"

definition env0 :: env where
  "env0 = \<lparr>fresh = ''id1'', timer_first = False\<rparr>"

definition first_poll :: HTTPRequest where
  "first_poll =
     \<lparr>Method = ''POST'', URL = ''/'', ReqHeader = [(''X-Timeout'', [''1m0s''])], Body = None\<rparr>"

definition empty_poll :: HTTPRequest where
  "empty_poll =
     \<lparr>Method = ''POST'', URL = ''/'',
      ReqHeader = [(''X-Timeout'', [''1m0s'']), (''X-Session'', [''id1''])], Body = None\<rparr>"

definition response_poll :: HTTPRequest where
  "response_poll =
     \<lparr>Method = ''POST'', URL = ''/'',
      ReqHeader = [(''X-Timeout'', [''1m0s'']), (''X-Session'', [''id1'']),
                   (''Content-Type'', [''application/x-http-response''])],
      Body = Some (''HTTP/1.1 200 OK'' @ CRLF @ CRLF @ ''asdf'')\<rparr>"

definition empty_timeout_poll :: HTTPRequest where
  "empty_timeout_poll =
     \<lparr>Method = ''POST'', URL = ''/'', ReqHeader = [(''X-Timeout'', [[]])], Body = None\<rparr>"

definition frob :: HTTPRequest where
  "frob = \<lparr>Method = ''FROB'', URL = ''/grob'', ReqHeader = [], Body = Some ''frob the grob!''\<rparr>"

definition no_url :: HTTPRequest where
  "no_url = \<lparr>Method = ''GET'', URL = [], ReqHeader = [], Body = None\<rparr>"

text \<open>The world after the first poll has timed out, and then after an originator has
  called \<open>RoundTrip\<close> on the session with each of the two requests.\<close>

definition world1 :: World where
  "world1 = fst (ServeHTTP lib0 first_poll (env0\<lparr>timer_first := True\<rparr>) world0)"

definition world_frob :: World where
  "world_frob = snd (RoundTrip 0 frob world1)"

definition world_no_url :: World where
  "world_no_url = snd (RoundTrip 0 no_url world1)"

text \<open>A server with the minimum above the maximum, and its world before any poll.\<close>

definition world_crossed :: World where
  "world_crossed = new_World (new_Server (150 * Millisecond) (50 * Millisecond) 0 False)"

text \<open>The server of the repository's test of timeout values, with minimum 50ms and
  maximum 150ms, and the polls the test sends to it.\<close>

definition world_limits :: World where
  "world_limits = new_World (new_Server (50 * Millisecond) (150 * Millisecond) 0 True)"

definition timeout_poll :: "string \<Rightarrow> HTTPRequest" where
  "timeout_poll v = \<lparr>Method = ''POST'', URL = ''/'', ReqHeader = [(''X-Timeout'', [v])], Body = None\<rparr>"

text \<open>The world in which the client has been handed \<open>frob\<close> by a poll and the server
  awaits its response.\<close>

definition world_pending :: World where
  "world_pending = fst (ServeHTTP lib0 empty_poll env0 world_frob)"

section \<open>Runs of the server\<close>

text \<open>
  What the goroutines around a server do, one at a time: a poll is handled; an
  originator calls \<open>RoundTrip\<close> on a session, up to its first blocking point; someone
  calls \<open>Close\<close> on a session; the idle timer of a session id fires. A panic of
  \<open>Close\<close>, in the caller's or the timer's goroutine, ends the run with its message. A
  \<open>RoundTrip\<close> that panics in the hand-off is recorded as such on its channel; whether
  its goroutine recovers is the originator's affair.
\<close>

datatype event =
    Poll HTTPRequest env
  | Submit nat HTTPRequest
  | CloseSession nat
  | IdleTimer string

definition step :: "lib \<Rightarrow> event \<Rightarrow> World \<Rightarrow> string + World" where
  "step L ev W =
     (case ev of
        Poll r E \<Rightarrow> Inr (fst (ServeHTTP L r E W))
      | Submit a r \<Rightarrow> Inr (snd (RoundTrip a r W))
      | CloseSession a \<Rightarrow> Close a W
      | IdleTimer sessionID \<Rightarrow> closer_fires sessionID W)"

primrec run :: "lib \<Rightarrow> event list \<Rightarrow> World \<Rightarrow> string + World" where
  "run L [] W = Inr W"
| "run L (ev # evs) W = (case step L ev W of Inl p \<Rightarrow> Inl p | Inr W1 \<Rightarrow> run L evs W1)"

text \<open>A call of \<open>RoundTrip\<close> is over when it has returned or panicked. \<open>kept W W'\<close>:
  every reply channel of \<open>W\<close> is a channel of \<open>W'\<close>, and every call that is over in \<open>W\<close>
  is over in the same way in \<open>W'\<close>.\<close>

definition over :: "caller \<Rightarrow> bool" where
  "over x = (case x of Sending \<Rightarrow> False | Receiving \<Rightarrow> False | Returned v \<Rightarrow> True | Panicked \<Rightarrow> True)"

definition kept :: "World \<Rightarrow> World \<Rightarrow> bool" where
  "kept W W' =
     (nextChan W \<le> nextChan W' \<and>
      (\<forall>c. c < nextChan W \<and> over (owner (chans W c)) \<longrightarrow>
            owner (chans W' c) = owner (chans W c)))"

text \<open>The message of the panic a call ended with, if it did.\<close>

definition the_panic :: "string + World \<Rightarrow> string option" where
  "the_panic x = (case x of Inl p \<Rightarrow> Some p | Inr W \<Rightarrow> None)"

section \<open>Properties of the ResponseWriter\<close>

lemma Header_Write_Nil: "Header_Write [] = []"
  by (simp add: Header_Write_def)

lemma WriteHeader_unsent:
  "\<not> headerSent rw \<Longrightarrow>
   WriteHeader code rw =
     rw\<lparr>w := w rw @ status_and_headers code (header_of rw), headerSent := True\<rparr>"
  by (simp add: WriteHeader_def status_and_headers_def header_of_def Header_Write_Nil
      split: option.splits)

lemma WriteHeader_sent: "headerSent rw \<Longrightarrow> WriteHeader code rw = rw"
  by (simp add: WriteHeader_def)

lemma rw_apply_HeaderAdd:
  "rw_apply (CallHeaderAdd k v) rw = rw\<lparr>header := Some (Header_Add (header_of rw) k v)\<rparr>"
  by (simp add: Header_def header_of_def split: option.splits)

lemma rw_apply_sent:
  "headerSent rw \<Longrightarrow>
   headerSent (rw_apply c rw) \<and>
   w (rw_apply c rw) = w rw @ (case c of CallWrite b \<Rightarrow> b | _ \<Rightarrow> [])"
  by (cases c) (simp_all add: WriteHeader_sent Write_def Header_def split: option.splits)

lemma fold_sent:
  "headerSent rw \<Longrightarrow> w (fold rw_apply cs rw) = w rw @ bodies cs"
proof (induction cs arbitrary: rw)
  case Nil
  then show ?case by simp
next
  case (Cons c cs)
  from rw_apply_sent [OF Cons.prems, of c]
  have s: "headerSent (rw_apply c rw)"
    and e: "w (rw_apply c rw) = w rw @ (case c of CallWrite b \<Rightarrow> b | _ \<Rightarrow> [])"
    by simp_all
  show ?case
    using Cons.IH [OF s] e by (cases c) simp_all
qed

lemma fold_unsent:
  "\<not> headerSent rw \<Longrightarrow>
   w (fold rw_apply cs rw) =
     w rw @ (case first_status cs of
        None \<Rightarrow> []
      | Some code \<Rightarrow> status_and_headers code (headers_before cs (header_of rw)) @ bodies cs)"
proof (induction cs arbitrary: rw)
  case Nil
  then show ?case by simp
next
  case (Cons c cs)
  show ?case
  proof (cases c)
    case (CallHeaderAdd k v)
    let ?rw = "rw\<lparr>header := Some (Header_Add (header_of rw) k v)\<rparr>"
    have u: "\<not> headerSent ?rw" and h: "header_of ?rw = Header_Add (header_of rw) k v"
      using Cons.prems by (simp_all add: header_of_def)
    show ?thesis
      unfolding CallHeaderAdd
      using Cons.IH [OF u] h
      by (cases "first_status cs") (simp_all add: rw_apply_HeaderAdd del: rw_apply.simps)
  next
    case (CallWrite b)
    have s: "headerSent (Write b rw)"
      and e: "w (Write b rw) = w rw @ status_and_headers StatusOK (header_of rw) @ b"
      using Cons.prems by (simp_all add: Write_def WriteHeader_unsent)
    show ?thesis
      using fold_sent [OF s, of cs] e CallWrite by simp
  next
    case (CallWriteHeader code)
    have s: "headerSent (WriteHeader code rw)"
      and e: "w (WriteHeader code rw) = w rw @ status_and_headers code (header_of rw)"
      using Cons.prems by (simp_all add: WriteHeader_unsent)
    show ?thesis
      using fold_sent [OF s, of cs] e CallWriteHeader by simp
  qed
qed

text \<open>
  C8. Whatever sequence of \<open>Header().Add\<close>, \<open>Write\<close> and \<open>WriteHeader\<close> calls a handler
  makes on a fresh writer, the bytes handed to the sink are: nothing while no \<open>Write\<close> or
  \<open>WriteHeader\<close> has been made; otherwise the status line \<open>HTTP/1.1 <code> <reason>\<close> and
  CRLF, where the code is that of the first such call and is 200 (reason \<open>OK\<close>) when that
  call is a \<open>Write\<close>; then the header block, one line \<open>Name: Value\<close> CRLF per value added
  before that call, as \<open>Header.Write\<close> prints it; then CRLF; then the bytes of every
  \<open>Write\<close> in order.
\<close>

theorem ResponseWriter_emits:
  "w (rw_run calls new_ResponseWriter) =
     (case first_status calls of
        None \<Rightarrow> []
      | Some code \<Rightarrow>
          ''HTTP/1.1 '' @ fmt_d code @ '' '' @ StatusText code @ CRLF
          @ Header_Write (headers_before calls []) @ CRLF
          @ bodies calls)"
proof -
  have u: "\<not> headerSent new_ResponseWriter" and e: "w new_ResponseWriter = []"
    and h: "header_of new_ResponseWriter = []"
    by (simp_all add: new_ResponseWriter_def header_of_def)
  show ?thesis
    unfolding rw_run_def
    using fold_unsent [OF u, of calls] e h
    by (simp add: status_and_headers_def split: option.splits)
qed

text \<open>The handler of the repository's first test: one header, then two writes, with a
  late \<open>WriteHeader\<close> between them that changes nothing.\<close>

theorem ResponseWriter_emits_witness:
  "w (rw_run [CallHeaderAdd ''X-Foo'' ''Bar'', CallWrite ''asdf '', CallWriteHeader 418,
        CallWrite ''asdf''] new_ResponseWriter)
   = ''HTTP/1.1 200 OK'' @ CRLF @ ''X-Foo: Bar'' @ CRLF @ CRLF @ ''asdf asdf''"
proof -
  let ?calls = "[CallHeaderAdd ''X-Foo'' ''Bar'', CallWrite ''asdf '', CallWriteHeader 418,
        CallWrite ''asdf'']"
  have "first_status ?calls = Some 200"
    by (simp add: StatusOK_def)
  moreover have "fmt_d 200 = ''200''"
    by code_simp
  moreover have "StatusText 200 = ''OK''"
    by code_simp
  moreover have "Header_Write (headers_before ?calls []) = ''X-Foo: Bar'' @ CRLF"
    by code_simp
  ultimately show ?thesis
    using ResponseWriter_emits [of ?calls] by simp
qed

lemma status_line_200: "fmt_d StatusOK = ''200'' \<and> StatusText StatusOK = ''OK''"
  by code_simp

lemma Write_unsent:
  "\<not> headerSent rw \<Longrightarrow>
   Write b rw =
     rw\<lparr>w := w rw @ ''HTTP/1.1 200 OK'' @ CRLF @ Header_Write (header_of rw) @ CRLF @ b,
        headerSent := True\<rparr>"
  by (simp add: Write_def WriteHeader_unsent status_and_headers_def status_line_200)

lemma Write_sent: "headerSent rw \<Longrightarrow> Write b rw = rw\<lparr>w := w rw @ b\<rparr>"
  by (simp add: Write_def)

text \<open>
  C10. \<open>WriteHeader\<close> takes effect at most once. On a writer whose headers are not sent
  it hands the status line, the header block and the blank line to the sink and marks
  the headers sent. A \<open>Write\<close> on such a writer is the implicit first call: it hands
  the status line \<open>HTTP/1.1 200 OK\<close>, the header block and the blank line to the sink,
  then its bytes, and marks the headers sent; on a writer whose headers are sent it
  hands over its bytes only. On a writer whose headers are sent, \<open>WriteHeader\<close> with any
  code returns the writer as it is: nothing is written, no field changes. So after a
  first \<open>WriteHeader code\<close> or a first \<open>Write\<close>, a later \<open>WriteHeader code'\<close> changes
  nothing, and the status emitted is that of the first call.
\<close>

theorem WriteHeader_at_most_once:
  "(headerSent rw \<longrightarrow> WriteHeader code' rw = rw)
   \<and> (\<not> headerSent rw \<longrightarrow>
        WriteHeader code rw =
          rw\<lparr>w := w rw @ ''HTTP/1.1 '' @ fmt_d code @ '' '' @ StatusText code @ CRLF
                    @ Header_Write (header_of rw) @ CRLF,
             headerSent := True\<rparr>)
   \<and> (\<not> headerSent rw \<longrightarrow>
        Write b rw =
          rw\<lparr>w := w rw @ ''HTTP/1.1 200 OK'' @ CRLF
                    @ Header_Write (header_of rw) @ CRLF @ b,
             headerSent := True\<rparr>)
   \<and> (headerSent rw \<longrightarrow> Write b rw = rw\<lparr>w := w rw @ b\<rparr>)
   \<and> headerSent (WriteHeader code rw)
   \<and> headerSent (Write b rw)
   \<and> WriteHeader code' (WriteHeader code rw) = WriteHeader code rw
   \<and> WriteHeader code' (Write b rw) = Write b rw"
proof -
  have s1: "headerSent (WriteHeader code rw)"
    by (simp add: WriteHeader_def)
  have s2: "headerSent (Write b rw)"
    by (simp add: Write_def WriteHeader_def)
  have u1: "\<not> headerSent rw \<longrightarrow>
        WriteHeader code rw =
          rw\<lparr>w := w rw @ ''HTTP/1.1 '' @ fmt_d code @ '' '' @ StatusText code @ CRLF
                    @ Header_Write (header_of rw) @ CRLF,
             headerSent := True\<rparr>"
    by (simp add: WriteHeader_unsent status_and_headers_def)
  have u2: "\<not> headerSent rw \<longrightarrow>
        Write b rw =
          rw\<lparr>w := w rw @ ''HTTP/1.1 200 OK'' @ CRLF
                    @ Header_Write (header_of rw) @ CRLF @ b,
             headerSent := True\<rparr>"
    using Write_unsent [of rw b] by blast
  have u3: "headerSent rw \<longrightarrow> Write b rw = rw\<lparr>w := w rw @ b\<rparr>"
    using Write_sent [of rw b] by blast
  have u4: "headerSent rw \<longrightarrow> WriteHeader code' rw = rw"
    using WriteHeader_sent [of rw code'] by blast
  from u1 u2 u3 u4 s1 s2 WriteHeader_sent [OF s1, of code'] WriteHeader_sent [OF s2, of code']
  show ?thesis
    by blast
qed

text \<open>On the fresh writer: an explicit first call with status 418, and the implicit
  first call of a \<open>Write\<close>; a later \<open>WriteHeader\<close> changes neither.\<close>

theorem WriteHeader_at_most_once_witness:
  "w (WriteHeader 418 new_ResponseWriter)
     = ''HTTP/1.1 418 I'' @ [CHR 0x27] @ ''m a teapot'' @ CRLF @ CRLF
   \<and> w (Write ''x'' new_ResponseWriter) = ''HTTP/1.1 200 OK'' @ CRLF @ CRLF @ ''x''
   \<and> headerSent (WriteHeader 418 new_ResponseWriter)
   \<and> headerSent (Write ''x'' new_ResponseWriter)
   \<and> WriteHeader 200 (WriteHeader 418 new_ResponseWriter) = WriteHeader 418 new_ResponseWriter
   \<and> WriteHeader 200 (Write ''x'' new_ResponseWriter) = Write ''x'' new_ResponseWriter"
proof -
  note T = WriteHeader_at_most_once [of new_ResponseWriter 200 418 "''x''"]
  have u: "\<not> headerSent new_ResponseWriter"
    by (simp add: new_ResponseWriter_def)
  have e: "w new_ResponseWriter = []"
    by (simp add: new_ResponseWriter_def)
  have f: "fmt_d 418 = ''418''"
    by code_simp
  have t: "StatusText 418 = ''I'' @ [CHR 0x27] @ ''m a teapot''"
    by code_simp
  have h: "Header_Write (header_of new_ResponseWriter) = []"
    by (simp add: header_of_def new_ResponseWriter_def Header_Write_Nil)
  from T u have "WriteHeader 418 new_ResponseWriter =
      new_ResponseWriter\<lparr>w := w new_ResponseWriter @ ''HTTP/1.1 '' @ fmt_d 418 @ '' ''
        @ StatusText 418 @ CRLF @ Header_Write (header_of new_ResponseWriter) @ CRLF,
        headerSent := True\<rparr>"
    by blast
  then have a: "w (WriteHeader 418 new_ResponseWriter)
     = ''HTTP/1.1 418 I'' @ [CHR 0x27] @ ''m a teapot'' @ CRLF @ CRLF"
    by (simp add: f t h e)
  from T u have "Write ''x'' new_ResponseWriter =
      new_ResponseWriter\<lparr>w := w new_ResponseWriter @ ''HTTP/1.1 200 OK'' @ CRLF
        @ Header_Write (header_of new_ResponseWriter) @ CRLF @ ''x'',
        headerSent := True\<rparr>"
    by blast
  then have b: "w (Write ''x'' new_ResponseWriter) = ''HTTP/1.1 200 OK'' @ CRLF @ CRLF @ ''x''"
    by (simp add: h e)
  from T a b show ?thesis
    by blast
qed

section \<open>Properties of the client loop\<close>










section \<open>Properties of the poll handler\<close>

subsection \<open>Headers\<close>

lemma map_of_Header_append:
  "map_of (Header_append k v h) k' =
     (if k' = k then Some ((case map_of h k of None \<Rightarrow> [] | Some vs \<Rightarrow> vs) @ [v])
      else map_of h k')"
  by (induction h) auto

lemma Header_Values_Add:
  "Header_Values (Header_Add h k v) k' =
     (if CanonicalMIMEHeaderKey k' = CanonicalMIMEHeaderKey k then Header_Values h k' @ [v]
      else Header_Values h k')"
  by (simp add: Header_Values_def Header_Add_def map_of_Header_append)

lemma Header_Values_Nil: "Header_Values [] k = []"
  by (simp add: Header_Values_def)

lemma canon_X_Warning: "CanonicalMIMEHeaderKey ''X-Warning'' = ''X-Warning''"
  by code_simp

lemma canon_X_Session: "CanonicalMIMEHeaderKey ''X-Session'' = ''X-Session''"
  by code_simp

lemma canon_X_Error: "CanonicalMIMEHeaderKey ''X-Error'' = ''X-Error''"
  by code_simp

lemma canon_Content_type: "CanonicalMIMEHeaderKey ''Content-type'' = ''Content-Type''"
  by code_simp

lemma canon_Content_Type: "CanonicalMIMEHeaderKey ''Content-Type'' = ''Content-Type''"
  by code_simp

lemmas canon_keys =
  canon_X_Warning canon_X_Session canon_X_Error canon_Content_type canon_Content_Type

lemma Header_Values_add_warnings:
  "Header_Values (add_warnings ws hdr) ''X-Warning'' = Header_Values hdr ''X-Warning'' @ ws"
  unfolding add_warnings_def
  by (induction ws arbitrary: hdr) (simp_all add: Header_Values_Add)

subsection \<open>The timeout phase\<close>

lemma resolve_timeout_eq:
  "resolve_timeout L srv r hdr =
     (case candidate L r of
        Inl err \<Rightarrow> Inl (Header_Add hdr ''X-Error'' ''cannot parse duration in X-Timeout header'')
      | Inr t \<Rightarrow> Inr (add_warnings (warnings L srv t) hdr, cap_then_raise srv t))"
  by (auto simp: resolve_timeout_def candidate_def warnings_def add_warnings_def
      cap_then_raise_def Let_def split: sum.splits)

subsection \<open>What the parts of the handler leave alone\<close>

lemma server_set_session [simp]: "server (set_session a s W) = server W"
  by (simp add: set_session_def)

lemma heap_set_session [simp]: "heap (set_session a s W) = (heap W)(a := s)"
  by (simp add: set_session_def)

lemma chans_set_session [simp]: "chans (set_session a s W) = chans W"
  by (simp add: set_session_def)

lemma server_set_owner [simp]: "server (set_owner c x W) = server W"
  by (simp add: set_owner_def)

lemma heap_set_owner [simp]: "heap (set_owner c x W) = heap W"
  by (simp add: set_owner_def)

lemma chans_set_owner [simp]:
  "chans (set_owner c x W) = (chans W)(c := (chans W c)\<lparr>owner := x\<rparr>)"
  by (simp add: set_owner_def)

lemma send_Done:
  "send c v W = Done W1 \<Longrightarrow>
   W1 = set_owner c (Returned v) W \<and> owner (chans W c) = Receiving \<and> \<not> chan_closed (chans W c)"
  by (auto simp: send_def split: if_splits caller.splits)

lemma close_chan_Done:
  "close_chan c W = Done W1 \<Longrightarrow>
   server W1 = server W \<and> heap W1 = heap W
   \<and> chans W1 = (chans W)(c := (chans W c)\<lparr>chan_closed := True\<rparr>)"
  by (auto simp: close_chan_def split: if_splits)

lemma close_chan_not_Blocks: "close_chan c W \<noteq> Blocks"
  by (simp add: close_chan_def)

lemma sender_proceeds_frame [simp]:
  "server (sender_proceeds c W) = server W" "heap (sender_proceeds c W) = heap W"
  by (simp_all add: sender_proceeds_def split: caller.splits)

lemma drain_Continue:
  "drain L r a hdr W = Continue W4 \<Longrightarrow>
   server W4 = server W
   \<and> PendingRequest (heap W4 a) = None
   \<and> Requests (heap W4 a) = Requests (heap W a)
   \<and> Requests_closed (heap W4 a) = Requests_closed (heap W a)"
  by (auto simp: drain_def split: option.splits sum.splits blocking.splits
      dest!: send_Done close_chan_Done)

lemma drain_leaves_senders:
  "drain L r a hdr W = Continue W4 \<Longrightarrow> owner (chans W c) = Sending \<Longrightarrow>
   chans W4 c = chans W c"
  by (auto simp: drain_def split: option.splits sum.splits blocking.splits
      dest!: send_Done close_chan_Done)

lemma drain_Stop:
  "drain L r a hdr W = Stop W4 out \<Longrightarrow>
   out = Answered StatusBadRequest hdr [] \<or> out = Blocked \<or> out = Panicked_handler"
  by (auto simp: drain_def split: option.splits sum.splits blocking.splits)

lemma lock_and_arm_frame [simp]:
  "server (lock_and_arm a W) = server W"
  "PendingRequest (heap (lock_and_arm a W) a) = PendingRequest (heap W a)"
  "Requests (heap (lock_and_arm a W) a) = Requests (heap W a)"
  "Requests_closed (heap (lock_and_arm a W) a) = Requests_closed (heap W a)"
  "chans (lock_and_arm a W) = chans W"
  by (simp_all add: lock_and_arm_def)

lemma unlock_frame [simp]:
  "server (unlock a out W) = server W"
  "PendingRequest (heap (unlock a out W) b) = PendingRequest (heap W b)"
  "chans (unlock a out W) = chans W"
  by (simp_all add: unlock_def)

lemma bind_session_limits:
  "bind_session r new_id W = (sessionID, a, W2) \<Longrightarrow>
   LongPollMinTimeout (server W2) = LongPollMinTimeout (server W)
   \<and> LongPollMaxTimeout (server W2) = LongPollMaxTimeout (server W)"
  by (auto simp: bind_session_def Let_def split: option.splits)

lemma limits_cong:
  "LongPollMinTimeout s = LongPollMinTimeout s' \<Longrightarrow>
   LongPollMaxTimeout s = LongPollMaxTimeout s' \<Longrightarrow>
   cap_then_raise s = cap_then_raise s' \<and> warnings L s = warnings L s'"
  by (auto simp: cap_then_raise_def warnings_def too_high_def too_low_def fun_eq_iff)

subsection \<open>The handler by phases\<close>

lemma ServeHTTP_unfold:
  assumes "bind_session r (fresh E) (W\<lparr>server := init_once (server W)\<rparr>) = (sessionID, a, W2)"
  shows "ServeHTTP L r E W =
     (if handlerMu (heap W2 a) then (W2, Blocked, None)
      else
        case drain L r a (Header_Add [] ''X-Session'' sessionID) (lock_and_arm a W2) of
          Stop W4 out \<Rightarrow> (unlock a out W4, out, None)
        | Continue W4 \<Rightarrow>
            (case resolve_timeout L (server W4) r (Header_Add [] ''X-Session'' sessionID) of
               Inl hdr1 \<Rightarrow>
                 (unlock a (Answered StatusBadRequest hdr1 []) W4,
                  Answered StatusBadRequest hdr1 [], None)
             | Inr (hdr1, timeout) \<Rightarrow>
                 (let (W5, out) = rendezvous L (timer_first E) a hdr1 W4
                  in (unlock a out W5, out, Some timeout))))"
  using assms by (simp add: ServeHTTP_def Let_def)

text \<open>A handler that gets to the \<open>select\<close>: the pending slot is empty there, the queue
  of the session is as the poll found it, and the timeout and the headers are those of
  the timeout phase.\<close>

lemma ServeHTTP_waits:
  assumes b: "bind_session r (fresh E) (W\<lparr>server := init_once (server W)\<rparr>) = (sessionID, a, W2)"
    and s: "ServeHTTP L r E W = (W', out, Some t)"
  shows "\<exists>W4 W5 c.
     candidate L r = Inr c
     \<and> t = cap_then_raise (init_once (server W)) c
     \<and> PendingRequest (heap W4 a) = None
     \<and> Requests (heap W4 a) = Requests (heap W2 a)
     \<and> Requests_closed (heap W4 a) = Requests_closed (heap W2 a)
     \<and> (\<forall>x. owner (chans W x) = Sending \<longrightarrow> chans W4 x = chans W x)
     \<and> rendezvous L (timer_first E) a (poll_headers L r E W c) W4 = (W5, out)
     \<and> W' = unlock a out W5"
proof -
  have nl: "\<not> handlerMu (heap W2 a)"
    using s by (auto simp: ServeHTTP_unfold [OF b])
  let ?hdr = "Header_Add [] ''X-Session'' sessionID"
  obtain W4 where d: "drain L r a ?hdr (lock_and_arm a W2) = Continue W4"
    using s nl by (cases "drain L r a ?hdr (lock_and_arm a W2)") (auto simp: ServeHTTP_unfold [OF b])
  note f = drain_Continue [OF d]
  have ch: "chans (lock_and_arm a W2) = chans W"
    using b by (auto simp: bind_session_def Let_def split: option.splits)
  have snd: "\<forall>x. owner (chans W x) = Sending \<longrightarrow> chans W4 x = chans W x"
    using drain_leaves_senders [OF d] ch by simp
  from bind_session_limits [OF b] f
  have lim: "LongPollMinTimeout (server W4) = LongPollMinTimeout (init_once (server W))"
    "LongPollMaxTimeout (server W4) = LongPollMaxTimeout (init_once (server W))"
    by simp_all
  note lc = limits_cong [OF lim, of L]
  have id: "poll_id r E W = sessionID"
    by (simp add: poll_id_def b)
  obtain c where c: "candidate L r = Inr c"
    using s nl d by (cases "candidate L r") (auto simp: ServeHTTP_unfold [OF b] resolve_timeout_eq)
  have rt: "resolve_timeout L (server W4) r ?hdr
      = Inr (poll_headers L r E W c, cap_then_raise (init_once (server W)) c)"
    using c lc by (simp add: resolve_timeout_eq poll_headers_def id)
  obtain W5 out' where rv: "rendezvous L (timer_first E) a (poll_headers L r E W c) W4 = (W5, out')"
    by (cases "rendezvous L (timer_first E) a (poll_headers L r E W c) W4")
  from s nl d rt rv have e: "unlock a out' W5 = W' \<and> out' = out
    \<and> cap_then_raise (init_once (server W)) c = t"
    by (auto simp: ServeHTTP_unfold [OF b])
  then have "W' = unlock a out W5" "t = cap_then_raise (init_once (server W)) c"
    and rv': "rendezvous L (timer_first E) a (poll_headers L r E W c) W4 = (W5, out)"
    using rv by auto
  with c f snd show ?thesis
    by auto
qed

subsection \<open>The rendezvous\<close>

lemma rendezvous_TimerFired:
  "select_case timer (heap W a) = TimerFired \<Longrightarrow>
   rendezvous L timer a hdr W = (W, Answered StatusNoContent hdr [])"
  by (simp add: rendezvous_def)

lemma rendezvous_ChanClosed:
  "select_case timer (heap W a) = ChanClosed \<Longrightarrow>
   rendezvous L timer a hdr W = (W, Answered StatusGone hdr [])"
  by (simp add: rendezvous_def)

lemma rendezvous_Received_ok:
  "select_case timer (heap W a) = Received req \<Longrightarrow>
   Request_Write L (HTTP req) = (bytes, None) \<Longrightarrow>
   rendezvous L timer a hdr W = (W5, out) \<Longrightarrow>
   out = Answered StatusOK (Header_Add hdr ''Content-type'' ''application/x-http-request'') bytes
   \<and> PendingRequest (heap W5 a) = Some req"
  by (auto simp: rendezvous_def Let_def)

lemma rendezvous_Received_err:
  "select_case timer (heap W a) = Received req \<Longrightarrow>
   Request_Write L (HTTP req) = (bytes, Some err) \<Longrightarrow>
   rendezvous L timer a hdr W = (W5, out) \<Longrightarrow>
   PendingRequest (heap W5 a) = PendingRequest (heap W a)
   \<and> (out = Answered StatusOK (Header_Add hdr ''Content-type'' ''application/x-http-request'') bytes
        \<and> owner (chans W5 (Response req)) = Returned \<lparr>Err = Some err, HTTP = None\<rparr>
      \<or> out = Blocked \<or> out = Panicked_handler)"
  by (auto simp: rendezvous_def Let_def split: blocking.splits dest!: send_Done)

lemma rendezvous_Received_err_delivered:
  assumes "select_case timer (heap W a) = Received req"
    and "Request_Write L (HTTP req) = (bytes, Some err)"
    and "owner (chans W (Response req)) = Sending"
    and "\<not> chan_closed (chans W (Response req))"
    and "rendezvous L timer a hdr W = (W5, out)"
  shows "out = Answered StatusOK (Header_Add hdr ''Content-type'' ''application/x-http-request'') bytes
     \<and> owner (chans W5 (Response req)) = Returned \<lparr>Err = Some err, HTTP = None\<rparr>"
  using assms
  by (auto simp: rendezvous_def Let_def send_def sender_proceeds_def)

lemma rendezvous_204_410:
  assumes "rendezvous L timer a hdr W = (W5, Answered code h b)"
    and "code = StatusNoContent \<or> code = StatusGone"
  shows "W5 = W"
proof (cases "select_case timer (heap W a)")
  case TimerFired
  with assms show ?thesis by (simp add: rendezvous_TimerFired)
next
  case ChanClosed
  with assms show ?thesis by (simp add: rendezvous_ChanClosed)
next
  case (Received req)
  obtain bytes e where rw: "Request_Write L (HTTP req) = (bytes, e)"
    by (cases "Request_Write L (HTTP req)")
  show ?thesis
  proof (cases e)
    case None
    with rendezvous_Received_ok [OF Received _ assms(1)] rw assms(2) show ?thesis
      by (simp add: StatusOK_def StatusNoContent_def StatusGone_def)
  next
    case (Some err)
    with rendezvous_Received_err [OF Received _ assms(1)] rw assms(2) show ?thesis
      by (simp add: StatusOK_def StatusNoContent_def StatusGone_def)
  qed
qed

lemma rendezvous_headers:
  assumes "rendezvous L timer a hdr W = (W5, Answered code h b)"
  shows "h = hdr \<or> h = Header_Add hdr ''Content-type'' ''application/x-http-request''"
proof (cases "select_case timer (heap W a)")
  case TimerFired
  with assms show ?thesis by (simp add: rendezvous_TimerFired)
next
  case ChanClosed
  with assms show ?thesis by (simp add: rendezvous_ChanClosed)
next
  case (Received req)
  obtain bytes e where rw: "Request_Write L (HTTP req) = (bytes, e)"
    by (cases "Request_Write L (HTTP req)")
  show ?thesis
  proof (cases e)
    case None
    with rendezvous_Received_ok [OF Received _ assms] rw show ?thesis
      by simp
  next
    case (Some err)
    with rendezvous_Received_err [OF Received _ assms] rw show ?thesis
      by simp
  qed
qed

lemma ServeHTTP_no_wait:
  assumes "ServeHTTP L r E W = (W', out, None)"
  shows "out = Blocked \<or> out = Panicked_handler \<or> (\<exists>h. out = Answered StatusBadRequest h [])"
proof -
  obtain sessionID a W2
    where b: "bind_session r (fresh E) (W\<lparr>server := init_once (server W)\<rparr>) = (sessionID, a, W2)"
    by (cases "bind_session r (fresh E) (W\<lparr>server := init_once (server W)\<rparr>)")
  show ?thesis
    using assms
    by (auto simp: ServeHTTP_unfold [OF b] split: if_splits drained.splits sum.splits prod.splits
        dest: drain_Stop)
qed

lemma poll_headers_values:
  "Header_Values (poll_headers L r E W c) ''X-Warning'' = warnings L (init_once (server W)) c"
  "Header_Values (poll_headers L r E W c) ''Content-Type'' = []"
  "Header_Values (poll_headers L r E W c) ''X-Session'' = [poll_id r E W]"
proof -
  show "Header_Values (poll_headers L r E W c) ''X-Warning'' = warnings L (init_once (server W)) c"
    by (simp add: poll_headers_def Header_Values_add_warnings Header_Values_Add
        Header_Values_Nil canon_keys)
  have other: "\<And>k ws hdr. CanonicalMIMEHeaderKey k \<noteq> ''X-Warning'' \<Longrightarrow>
      Header_Values (add_warnings ws hdr) k = Header_Values hdr k"
    unfolding add_warnings_def
    subgoal for k ws hdr
      by (induction ws arbitrary: hdr) (simp_all add: Header_Values_Add canon_keys)
    done
  show "Header_Values (poll_headers L r E W c) ''Content-Type'' = []"
    by (simp add: poll_headers_def other Header_Values_Add Header_Values_Nil canon_keys)
  show "Header_Values (poll_headers L r E W c) ''X-Session'' = [poll_id r E W]"
    by (simp add: poll_headers_def other Header_Values_Add Header_Values_Nil canon_keys)
qed

subsection \<open>Claims about the handler\<close>

text \<open>
  C7. Whatever the poll, the world and the library, when the handler answers 204 No
  Content or 410 Gone the pending slot of the session the poll is bound to is empty in
  the world the handler leaves.
\<close>

theorem pending_empty_on_204_410:
  assumes s: "ServeHTTP L r E W = (W', Answered code hdr body, t)"
    and code: "code = StatusNoContent \<or> code = StatusGone"
  shows "PendingRequest (heap W' (poll_session r E W)) = None"
proof -
  obtain sessionID a W2
    where b: "bind_session r (fresh E) (W\<lparr>server := init_once (server W)\<rparr>) = (sessionID, a, W2)"
    by (cases "bind_session r (fresh E) (W\<lparr>server := init_once (server W)\<rparr>)")
  have a: "poll_session r E W = a"
    by (simp add: poll_session_def b)
  show ?thesis
  proof (cases t)
    case None
    with ServeHTTP_no_wait [of L r E W W' "Answered code hdr body"] s code show ?thesis
      by (auto simp: StatusBadRequest_def StatusNoContent_def StatusGone_def)
  next
    case (Some d)
    from ServeHTTP_waits [OF b s [unfolded Some]]
    obtain W4 W5 c where p: "PendingRequest (heap W4 a) = None"
      and rv: "rendezvous L (timer_first E) a (poll_headers L r E W c) W4
                 = (W5, Answered code hdr body)"
      and w: "W' = unlock a (Answered code hdr body) W5"
      by blast
    from rendezvous_204_410 [OF rv code] have "W5 = W4" .
    with p w a show ?thesis
      by simp
  qed
qed

theorem pending_empty_on_204_410_witness:
  "fst (snd (ServeHTTP lib0 empty_poll env0 world1)) = Answered 204 [(''X-Session'', [''id1''])] []
   \<and> PendingRequest (heap (fst (ServeHTTP lib0 empty_poll env0 world1))
        (poll_session empty_poll env0 world1)) = None"
proof -
  have e: "snd (ServeHTTP lib0 empty_poll env0 world1)
      = (Answered 204 [(''X-Session'', [''id1''])] [], Some Minute)"
    by code_simp
  then have "ServeHTTP lib0 empty_poll env0 world1
      = (fst (ServeHTTP lib0 empty_poll env0 world1),
         Answered 204 [(''X-Session'', [''id1''])] [], Some Minute)"
    by (metis prod.collapse)
  from pending_empty_on_204_410 [OF this] e show ?thesis
    by (simp add: StatusNoContent_def)
qed

text \<open>
  C9. Whenever the handler gets to its \<open>select\<close>, the duration it waits is the candidate
  timeout, capped at \<open>LongPollMaxTimeout\<close> and then raised to \<open>LongPollMinTimeout\<close> (both
  as \<open>doInit\<close> leaves them), where the candidate is one minute when \<open>X-Timeout\<close> is
  absent or empty. Hence with the minimum above the maximum the wait is the minimum.
  The \<open>X-Warning\<close> values of the answer are the warning for the maximum when the
  candidate is above it, followed by the warning for the minimum when the capped value
  is below it: a poll with no \<open>X-Timeout\<close> is warned like any other, and with the
  minimum above the maximum a candidate above the maximum gets both warnings.
\<close>

theorem effective_wait_duration:
  assumes s: "ServeHTTP L r E W = (W', out, Some t)"
  shows "\<exists>c. candidate L r = Inr c
     \<and> (Header_Get (ReqHeader r) ''X-Timeout'' = [] \<longrightarrow> c = Minute)
     \<and> t = max (LongPollMinTimeout (init_once (server W)))
              (min (LongPollMaxTimeout (init_once (server W))) c)
     \<and> (LongPollMaxTimeout (init_once (server W)) < LongPollMinTimeout (init_once (server W))
          \<longrightarrow> t = LongPollMinTimeout (init_once (server W)))
     \<and> (\<forall>code h b. out = Answered code h b \<longrightarrow>
          Header_Values h ''X-Warning'' = warnings L (init_once (server W)) c)
     \<and> (LongPollMaxTimeout (init_once (server W)) < LongPollMinTimeout (init_once (server W))
          \<and> LongPollMaxTimeout (init_once (server W)) < c \<longrightarrow>
          warnings L (init_once (server W)) c
            = [too_high L (init_once (server W)), too_low L (init_once (server W))])"
proof -
  obtain sessionID a W2
    where b: "bind_session r (fresh E) (W\<lparr>server := init_once (server W)\<rparr>) = (sessionID, a, W2)"
    by (cases "bind_session r (fresh E) (W\<lparr>server := init_once (server W)\<rparr>)")
  from ServeHTTP_waits [OF b s]
  obtain W4 W5 c where c: "candidate L r = Inr c"
    and t: "t = cap_then_raise (init_once (server W)) c"
    and rv: "rendezvous L (timer_first E) a (poll_headers L r E W c) W4 = (W5, out)"
    by blast
  have m: "Header_Get (ReqHeader r) ''X-Timeout'' = [] \<longrightarrow> c = Minute"
    using c by (auto simp: candidate_def)
  have h: "\<forall>code h b. out = Answered code h b \<longrightarrow>
          Header_Values h ''X-Warning'' = warnings L (init_once (server W)) c"
  proof (intro allI impI)
    fix code h b
    assume "out = Answered code h b"
    with rendezvous_headers rv
    have "h = poll_headers L r E W c
      \<or> h = Header_Add (poll_headers L r E W c) ''Content-type'' ''application/x-http-request''"
      by blast
    then show "Header_Values h ''X-Warning'' = warnings L (init_once (server W)) c"
      by (auto simp: poll_headers_values Header_Values_Add canon_keys)
  qed
  have w: "LongPollMaxTimeout (init_once (server W)) < LongPollMinTimeout (init_once (server W))
          \<and> LongPollMaxTimeout (init_once (server W)) < c \<longrightarrow>
          warnings L (init_once (server W)) c
            = [too_high L (init_once (server W)), too_low L (init_once (server W))]"
    by (simp add: warnings_def)
  from c m t h w show ?thesis
    by (auto simp: cap_then_raise_def)
qed

text \<open>On a server with minimum 150ms and maximum 50ms, a first poll with no \<open>X-Timeout\<close>
  header waits 150ms and is answered with both warnings.\<close>

theorem effective_wait_duration_witness:
  "snd (ServeHTTP lib0 \<lparr>Method = ''POST'', URL = ''/'', ReqHeader = [], Body = None\<rparr> env0
          world_crossed)
     = (Answered 204
          [(''X-Session'', [''id1'']),
           (''X-Warning'', [''timeout value too high, forcing to maximum 50ms'',
                            ''timeout value too low, forcing to minimum 150ms''])] [],
        Some (150 * Millisecond))
   \<and> candidate lib0 \<lparr>Method = ''POST'', URL = ''/'', ReqHeader = [], Body = None\<rparr> = Inr Minute"
proof -
  let ?p = "\<lparr>Method = ''POST'', URL = ''/'', ReqHeader = [], Body = None\<rparr>"
  have e: "snd (ServeHTTP lib0 ?p env0 world_crossed)
     = (Answered 204
          [(''X-Session'', [''id1'']),
           (''X-Warning'', [''timeout value too high, forcing to maximum 50ms'',
                            ''timeout value too low, forcing to minimum 150ms''])] [],
        Some (150 * Millisecond))"
    by code_simp
  then have "ServeHTTP lib0 ?p env0 world_crossed
      = (fst (ServeHTTP lib0 ?p env0 world_crossed), Answered 204
          [(''X-Session'', [''id1'']),
           (''X-Warning'', [''timeout value too high, forcing to maximum 50ms'',
                            ''timeout value too low, forcing to minimum 150ms''])] [],
        Some (150 * Millisecond))"
    by (metis prod.collapse)
  from effective_wait_duration [OF this]
  obtain c where "candidate lib0 ?p = Inr c"
    and "Header_Get (ReqHeader ?p) ''X-Timeout'' = [] \<longrightarrow> c = Minute"
    by blast
  moreover have "Header_Get (ReqHeader ?p) ''X-Timeout'' = []"
    by (simp add: Header_Get_def)
  ultimately show ?thesis
    using e by simp
qed

lemma reaches_timeout_unfold:
  assumes "bind_session r (fresh E) (W\<lparr>server := init_once (server W)\<rparr>) = (sessionID, a, W2)"
    and "reaches_timeout L r E W"
  shows "\<not> handlerMu (heap W2 a)
     \<and> (\<exists>W4. drain L r a (Header_Add [] ''X-Session'' sessionID) (lock_and_arm a W2) = Continue W4)"
  using assms by (auto simp: reaches_timeout_def split: drained.splits)

lemma answer_warnings:
  assumes s: "ServeHTTP L r E W = (W', Answered code h b, Some t)"
    and c: "candidate L r = Inr c"
  shows "Header_Values h ''X-Warning'' = warnings L (init_once (server W)) c"
proof -
  obtain sessionID a W2
    where b: "bind_session r (fresh E) (W\<lparr>server := init_once (server W)\<rparr>) = (sessionID, a, W2)"
    by (cases "bind_session r (fresh E) (W\<lparr>server := init_once (server W)\<rparr>)")
  from ServeHTTP_waits [OF b s] c
  obtain W4 W5
    where "rendezvous L (timer_first E) a (poll_headers L r E W c) W4 = (W5, Answered code h b)"
    by auto
  with rendezvous_headers
  have "h = poll_headers L r E W c
      \<or> h = Header_Add (poll_headers L r E W c) ''Content-type'' ''application/x-http-request''"
    by blast
  then show ?thesis
    by (auto simp: poll_headers_values Header_Values_Add canon_keys)
qed

lemma ServeHTTP_timeout_phase:
  assumes "reaches_timeout L r E W"
  shows "case candidate L r of
      Inl err \<Rightarrow>
        snd (ServeHTTP L r E W) =
          (Answered StatusBadRequest
             (Header_Add (Header_Add [] ''X-Session'' (poll_id r E W))
                ''X-Error'' ''cannot parse duration in X-Timeout header'') [],
           None)
    | Inr c \<Rightarrow> snd (snd (ServeHTTP L r E W)) = Some (cap_then_raise (init_once (server W)) c)"
proof -
  obtain sessionID a W2
    where b: "bind_session r (fresh E) (W\<lparr>server := init_once (server W)\<rparr>) = (sessionID, a, W2)"
    by (cases "bind_session r (fresh E) (W\<lparr>server := init_once (server W)\<rparr>)")
  from reaches_timeout_unfold [OF b assms]
  obtain W4 where nl: "\<not> handlerMu (heap W2 a)"
    and d: "drain L r a (Header_Add [] ''X-Session'' sessionID) (lock_and_arm a W2) = Continue W4"
    by blast
  from bind_session_limits [OF b] drain_Continue [OF d]
  have lim: "LongPollMinTimeout (server W4) = LongPollMinTimeout (init_once (server W))"
    "LongPollMaxTimeout (server W4) = LongPollMaxTimeout (init_once (server W))"
    by simp_all
  note lc = limits_cong [OF lim, of L]
  have id: "poll_id r E W = sessionID"
    by (simp add: poll_id_def b)
  show ?thesis
  proof (cases "candidate L r")
    case (Inl err)
    then show ?thesis
      using nl d by (simp add: ServeHTTP_unfold [OF b] resolve_timeout_eq id)
  next
    case (Inr c)
    then show ?thesis
      using nl d lc
      by (simp add: ServeHTTP_unfold [OF b] resolve_timeout_eq split: prod.splits)
  qed
qed

text \<open>
  C4, as the code has it. For every poll that gets to the timeout phase: when the first
  value of \<open>X-Timeout\<close> is not empty and does not parse, the poll is answered 400 with
  \<open>X-Error: cannot parse duration in X-Timeout header\<close> beside \<open>X-Session\<close>. Otherwise
  the handler waits for the candidate (the parsed value, or one minute when the header
  is absent or its value empty) capped at the maximum and then raised to the minimum,
  which lies between the two when the minimum is not above the maximum; and the
  \<open>X-Warning\<close> values of the answer are \<open>timeout value too high, forcing to maximum
  <max>\<close> exactly when the candidate is above the maximum, then \<open>timeout value too low,
  forcing to minimum <min>\<close> exactly when the capped value is below the minimum.
\<close>

theorem timeout_resolution:
  assumes "reaches_timeout L r E W"
  shows "case candidate L r of
      Inl err \<Rightarrow>
        Header_Get (ReqHeader r) ''X-Timeout'' \<noteq> []
        \<and> snd (ServeHTTP L r E W) =
          (Answered StatusBadRequest
             (Header_Add (Header_Add [] ''X-Session'' (poll_id r E W))
                ''X-Error'' ''cannot parse duration in X-Timeout header'') [],
           None)
    | Inr c \<Rightarrow>
        snd (snd (ServeHTTP L r E W))
          = Some (max (LongPollMinTimeout (init_once (server W)))
                   (min (LongPollMaxTimeout (init_once (server W))) c))
        \<and> (LongPollMinTimeout (init_once (server W)) \<le> LongPollMaxTimeout (init_once (server W))
             \<longrightarrow> LongPollMinTimeout (init_once (server W))
                   \<le> max (LongPollMinTimeout (init_once (server W)))
                        (min (LongPollMaxTimeout (init_once (server W))) c)
                 \<and> max (LongPollMinTimeout (init_once (server W)))
                        (min (LongPollMaxTimeout (init_once (server W))) c)
                   \<le> LongPollMaxTimeout (init_once (server W)))
        \<and> (\<forall>code h b. fst (snd (ServeHTTP L r E W)) = Answered code h b \<longrightarrow>
             Header_Values h ''X-Warning'' =
               (if c > LongPollMaxTimeout (init_once (server W))
                then [''timeout value too high, forcing to maximum ''
                       @ Duration_String L (LongPollMaxTimeout (init_once (server W)))]
                else [])
               @ (if min (LongPollMaxTimeout (init_once (server W))) c
                      < LongPollMinTimeout (init_once (server W))
                  then [''timeout value too low, forcing to minimum ''
                         @ Duration_String L (LongPollMinTimeout (init_once (server W)))]
                  else []))"
proof (cases "candidate L r")
  case (Inl err)
  then have "Header_Get (ReqHeader r) ''X-Timeout'' \<noteq> []"
    by (auto simp: candidate_def split: if_splits)
  with Inl ServeHTTP_timeout_phase [OF assms] show ?thesis
    by simp
next
  case (Inr c)
  with ServeHTTP_timeout_phase [OF assms]
  have t: "snd (snd (ServeHTTP L r E W)) = Some (cap_then_raise (init_once (server W)) c)"
    by simp
  have "\<forall>code h b. fst (snd (ServeHTTP L r E W)) = Answered code h b \<longrightarrow>
      Header_Values h ''X-Warning'' = warnings L (init_once (server W)) c"
  proof (intro allI impI)
    fix code h b
    assume "fst (snd (ServeHTTP L r E W)) = Answered code h b"
    with t have "ServeHTTP L r E W
        = (fst (ServeHTTP L r E W), Answered code h b,
           Some (cap_then_raise (init_once (server W)) c))"
      by (metis prod.collapse)
    from answer_warnings [OF this Inr]
    show "Header_Values h ''X-Warning'' = warnings L (init_once (server W)) c" .
  qed
  with t Inr show ?thesis
    by (simp add: cap_then_raise_def warnings_def too_high_def too_low_def)
qed

text \<open>The three polls of the repository's test of timeout values.\<close>

theorem timeout_resolution_witness:
  "snd (ServeHTTP lib0 (timeout_poll ''not-a-valid-time'') env0 world_limits)
     = (Answered 400 [(''X-Session'', [''id1'']),
                      (''X-Error'', [''cannot parse duration in X-Timeout header''])] [], None)
   \<and> snd (ServeHTTP lib0 (timeout_poll ''200ms'') env0 world_limits)
     = (Answered 204 [(''X-Session'', [''id1'']),
          (''X-Warning'', [''timeout value too high, forcing to maximum 150ms''])] [],
        Some (150 * Millisecond))
   \<and> snd (ServeHTTP lib0 (timeout_poll ''10ms'') env0 world_limits)
     = (Answered 204 [(''X-Session'', [''id1'']),
          (''X-Warning'', [''timeout value too low, forcing to minimum 50ms''])] [],
        Some (50 * Millisecond))"
proof -
  have r: "reaches_timeout lib0 (timeout_poll ''not-a-valid-time'') env0 world_limits"
    by code_simp
  have c: "candidate lib0 (timeout_poll ''not-a-valid-time'') = Inl (LibError ''time: invalid duration'')"
    by code_simp
  have h: "Header_Add (Header_Add [] ''X-Session''
                (poll_id (timeout_poll ''not-a-valid-time'') env0 world_limits))
             ''X-Error'' ''cannot parse duration in X-Timeout header''
      = [(''X-Session'', [''id1'']),
         (''X-Error'', [''cannot parse duration in X-Timeout header''])]"
    by code_simp
  have "snd (ServeHTTP lib0 (timeout_poll ''not-a-valid-time'') env0 world_limits)
     = (Answered 400 [(''X-Session'', [''id1'']),
                      (''X-Error'', [''cannot parse duration in X-Timeout header''])] [], None)"
    using timeout_resolution [OF r] c h by (simp add: StatusBadRequest_def)
  moreover have "snd (ServeHTTP lib0 (timeout_poll ''200ms'') env0 world_limits)
     = (Answered 204 [(''X-Session'', [''id1'']),
          (''X-Warning'', [''timeout value too high, forcing to maximum 150ms''])] [],
        Some (150 * Millisecond))"
    by code_simp
  moreover have "snd (ServeHTTP lib0 (timeout_poll ''10ms'') env0 world_limits)
     = (Answered 204 [(''X-Session'', [''id1'']),
          (''X-Warning'', [''timeout value too low, forcing to minimum 50ms''])] [],
        Some (50 * Millisecond))"
    by code_simp
  ultimately show ?thesis
    by simp
qed

text \<open>
  The claim as the spec words it fails on a poll whose \<open>X-Timeout\<close> header is there
  with an empty value: the header is present and its value does not parse as a
  duration, yet the poll is not answered 400 but waits one minute and is answered 204.
\<close>

theorem present_unparsable_timeout_counterexample:
  "Header_Has (ReqHeader empty_timeout_poll) ''X-Timeout''
   \<and> Header_Values (ReqHeader empty_timeout_poll) ''X-Timeout'' = [[]]
   \<and> ParseDuration lib0 [] = Inl (LibError ''time: invalid duration'')
   \<and> snd (ServeHTTP lib0 empty_timeout_poll env0 world0)
       = (Answered 204 [(''X-Session'', [''id1''])] [], Some Minute)"
  by code_simp

lemma poll_selects_unfold:
  assumes "bind_session r (fresh E) (W\<lparr>server := init_once (server W)\<rparr>) = (sessionID, a, W2)"
  shows "poll_selects r E W = select_case (timer_first E) (heap W2 a)"
  using assms by (simp add: poll_selects_def)

lemma select_case_cong:
  "Requests s = Requests s' \<Longrightarrow> Requests_closed s = Requests_closed s' \<Longrightarrow>
   select_case timer s = select_case timer s'"
  by (simp add: select_case_def)

text \<open>
  C5, as the code has it. For every poll whose handler gets to the \<open>select\<close>, what the
  \<open>select\<close> observes decides the outcome, one of four. The timer: 204 No Content, no
  body, pending slot empty. The channel closed: 410 Gone, no body, pending slot empty.
  A request received and serialised without error: 200 OK with
  \<open>Content-Type: application/x-http-request\<close> and the serialised request as body, and
  the request is the pending one. A request received whose serialisation fails: the
  pending slot stays empty, and the error is handed to the originator, the answer being
  200 OK with that content type and the bytes written before the error; that is so
  whenever the originator was blocked in the hand-off when the poll came, as the
  originator of a queued request is (in any other world the handler could block or
  panic in the hand-over instead).
  In each case the answer carries \<open>X-Session\<close> and the warnings of the timeout phase.
\<close>

theorem rendezvous_outcomes:
  assumes s: "ServeHTTP L r E W = (W', out, Some t)"
  shows "\<exists>c. candidate L r = Inr c \<and>
     (case poll_selects r E W of
        TimerFired \<Rightarrow>
          out = Answered StatusNoContent (poll_headers L r E W c) []
          \<and> PendingRequest (heap W' (poll_session r E W)) = None
      | ChanClosed \<Rightarrow>
          out = Answered StatusGone (poll_headers L r E W c) []
          \<and> PendingRequest (heap W' (poll_session r E W)) = None
      | Received req \<Rightarrow>
          (case Request_Write L (HTTP req) of
             (bytes, None) \<Rightarrow>
               out = Answered StatusOK
                       (Header_Add (poll_headers L r E W c)
                          ''Content-type'' ''application/x-http-request'') bytes
               \<and> Header_Values (Header_Add (poll_headers L r E W c)
                          ''Content-type'' ''application/x-http-request'') ''Content-Type''
                   = [''application/x-http-request'']
               \<and> PendingRequest (heap W' (poll_session r E W)) = Some req
           | (bytes, Some err) \<Rightarrow>
               PendingRequest (heap W' (poll_session r E W)) = None
               \<and> (out = Answered StatusOK
                           (Header_Add (poll_headers L r E W c)
                              ''Content-type'' ''application/x-http-request'') bytes
                    \<and> owner (chans W' (Response req)) = Returned \<lparr>Err = Some err, HTTP = None\<rparr>
                  \<or> out = Blocked \<or> out = Panicked_handler)
               \<and> (owner (chans W (Response req)) = Sending
                    \<and> \<not> chan_closed (chans W (Response req)) \<longrightarrow>
                    out = Answered StatusOK
                           (Header_Add (poll_headers L r E W c)
                              ''Content-type'' ''application/x-http-request'') bytes
                    \<and> owner (chans W' (Response req))
                        = Returned \<lparr>Err = Some err, HTTP = None\<rparr>)))"
proof -
  obtain sessionID a W2
    where b: "bind_session r (fresh E) (W\<lparr>server := init_once (server W)\<rparr>) = (sessionID, a, W2)"
    by (cases "bind_session r (fresh E) (W\<lparr>server := init_once (server W)\<rparr>)")
  have a: "poll_session r E W = a"
    by (simp add: poll_session_def b)
  from ServeHTTP_waits [OF b s]
  obtain W4 W5 c where c: "candidate L r = Inr c"
    and p: "PendingRequest (heap W4 a) = None"
    and q: "Requests (heap W4 a) = Requests (heap W2 a)"
      "Requests_closed (heap W4 a) = Requests_closed (heap W2 a)"
    and sn: "\<forall>x. owner (chans W x) = Sending \<longrightarrow> chans W4 x = chans W x"
    and rv: "rendezvous L (timer_first E) a (poll_headers L r E W c) W4 = (W5, out)"
    and w: "W' = unlock a out W5"
    by blast
  have sel: "poll_selects r E W = select_case (timer_first E) (heap W4 a)"
    using select_case_cong [OF q] by (simp add: poll_selects_unfold [OF b])
  have ct: "Header_Values (Header_Add (poll_headers L r E W c)
                ''Content-type'' ''application/x-http-request'') ''Content-Type''
             = [''application/x-http-request'']"
    by (simp add: Header_Values_Add poll_headers_values canon_keys)
  have "case poll_selects r E W of
        TimerFired \<Rightarrow>
          out = Answered StatusNoContent (poll_headers L r E W c) []
          \<and> PendingRequest (heap W' a) = None
      | ChanClosed \<Rightarrow>
          out = Answered StatusGone (poll_headers L r E W c) []
          \<and> PendingRequest (heap W' a) = None
      | Received req \<Rightarrow>
          (case Request_Write L (HTTP req) of
             (bytes, None) \<Rightarrow>
               out = Answered StatusOK
                       (Header_Add (poll_headers L r E W c)
                          ''Content-type'' ''application/x-http-request'') bytes
               \<and> Header_Values (Header_Add (poll_headers L r E W c)
                          ''Content-type'' ''application/x-http-request'') ''Content-Type''
                   = [''application/x-http-request'']
               \<and> PendingRequest (heap W' a) = Some req
           | (bytes, Some err) \<Rightarrow>
               PendingRequest (heap W' a) = None
               \<and> (out = Answered StatusOK
                           (Header_Add (poll_headers L r E W c)
                              ''Content-type'' ''application/x-http-request'') bytes
                    \<and> owner (chans W' (Response req)) = Returned \<lparr>Err = Some err, HTTP = None\<rparr>
                  \<or> out = Blocked \<or> out = Panicked_handler)
               \<and> (owner (chans W (Response req)) = Sending
                    \<and> \<not> chan_closed (chans W (Response req)) \<longrightarrow>
                    out = Answered StatusOK
                           (Header_Add (poll_headers L r E W c)
                              ''Content-type'' ''application/x-http-request'') bytes
                    \<and> owner (chans W' (Response req))
                        = Returned \<lparr>Err = Some err, HTTP = None\<rparr>))"
  proof (cases "select_case (timer_first E) (heap W4 a)")
    case TimerFired
    with rv p w sel show ?thesis
      by (auto simp: rendezvous_TimerFired)
  next
    case ChanClosed
    with rv p w sel show ?thesis
      by (auto simp: rendezvous_ChanClosed)
  next
    case (Received req)
    obtain bytes e where rw: "Request_Write L (HTTP req) = (bytes, e)"
      by (cases "Request_Write L (HTTP req)")
    show ?thesis
    proof (cases e)
      case None
      with rendezvous_Received_ok [OF Received _ rv] rw w sel Received ct show ?thesis
        by simp
    next
      case (Some err)
      have d: "owner (chans W (Response req)) = Sending
                    \<and> \<not> chan_closed (chans W (Response req)) \<longrightarrow>
                    out = Answered StatusOK
                           (Header_Add (poll_headers L r E W c)
                              ''Content-type'' ''application/x-http-request'') bytes
                    \<and> owner (chans W' (Response req))
                        = Returned \<lparr>Err = Some err, HTTP = None\<rparr>"
      proof (intro impI)
        assume h: "owner (chans W (Response req)) = Sending
                    \<and> \<not> chan_closed (chans W (Response req))"
        with sn have e: "chans W4 (Response req) = chans W (Response req)"
          by simp
        from h e have o4: "owner (chans W4 (Response req)) = Sending"
          and n4: "\<not> chan_closed (chans W4 (Response req))"
          by simp_all
        from rw Some have rw': "Request_Write L (HTTP req) = (bytes, Some err)"
          by simp
        from rendezvous_Received_err_delivered [OF Received rw' o4 n4 rv] w
        show "out = Answered StatusOK
                           (Header_Add (poll_headers L r E W c)
                              ''Content-type'' ''application/x-http-request'') bytes
                    \<and> owner (chans W' (Response req))
                        = Returned \<lparr>Err = Some err, HTTP = None\<rparr>"
          by simp
      qed
      with Some rendezvous_Received_err [OF Received _ rv] rw w sel Received p show ?thesis
        by auto
    qed
  qed
  with c a show ?thesis
    by blast
qed

text \<open>The second poll of the session, with \<open>frob\<close> waiting in the hand-off, is answered
  with the serialised request, which becomes the pending one.\<close>

theorem rendezvous_outcomes_witness:
  "poll_selects empty_poll env0 world_frob = Received \<lparr>HTTP = frob, Response = 0\<rparr>
   \<and> snd (ServeHTTP lib0 empty_poll env0 world_frob)
       = (Answered 200 [(''X-Session'', [''id1'']),
                        (''Content-Type'', [''application/x-http-request''])]
            (''FROB /grob HTTP/1.1'' @ CRLF @ CRLF @ ''frob the grob!''),
          Some Minute)
   \<and> PendingRequest (heap (fst (ServeHTTP lib0 empty_poll env0 world_frob))
        (poll_session empty_poll env0 world_frob)) = Some \<lparr>HTTP = frob, Response = 0\<rparr>"
proof -
  have e: "snd (ServeHTTP lib0 empty_poll env0 world_frob)
       = (Answered 200 [(''X-Session'', [''id1'']),
                        (''Content-Type'', [''application/x-http-request''])]
            (''FROB /grob HTTP/1.1'' @ CRLF @ CRLF @ ''frob the grob!''),
          Some Minute)"
    by code_simp
  then have "ServeHTTP lib0 empty_poll env0 world_frob
       = (fst (ServeHTTP lib0 empty_poll env0 world_frob),
          Answered 200 [(''X-Session'', [''id1'']),
                        (''Content-Type'', [''application/x-http-request''])]
            (''FROB /grob HTTP/1.1'' @ CRLF @ CRLF @ ''frob the grob!''),
          Some Minute)"
    by (metis prod.collapse)
  note T = rendezvous_outcomes [OF this]
  have sel: "poll_selects empty_poll env0 world_frob = Received \<lparr>HTTP = frob, Response = 0\<rparr>"
    by code_simp
  have rw: "Request_Write lib0 frob
      = (''FROB /grob HTTP/1.1'' @ CRLF @ CRLF @ ''frob the grob!'', None)"
    by code_simp
  from T sel rw have "PendingRequest (heap (fst (ServeHTTP lib0 empty_poll env0 world_frob))
        (poll_session empty_poll env0 world_frob)) = Some \<lparr>HTTP = frob, Response = 0\<rparr>"
    by auto
  with sel e show ?thesis
    by simp
qed

text \<open>
  The three outcomes of the spec leave one out. With the request \<open>no_url\<close> waiting in
  the hand-off, whose serialisation fails, the poll is answered 200 OK with an empty
  body, the originator is handed the error, and the pending slot is empty: neither 204
  nor 410, nor a 200 whose originator is recorded.
\<close>

theorem serialisation_failure_counterexample:
  "poll_selects empty_poll env0 world_no_url = Received \<lparr>HTTP = no_url, Response = 0\<rparr>
   \<and> snd (ServeHTTP lib0 empty_poll env0 world_no_url)
       = (Answered 200 [(''X-Session'', [''id1'']),
                        (''Content-Type'', [''application/x-http-request''])] [],
          Some Minute)
   \<and> PendingRequest (heap (fst (ServeHTTP lib0 empty_poll env0 world_no_url)) 0) = None
   \<and> owner (chans (fst (ServeHTTP lib0 empty_poll env0 world_no_url)) 0)
       = Returned \<lparr>Err = Some (LibError ''http: Request.Write on Request with no Host or URL set''),
                    HTTP = None\<rparr>"
  by code_simp

text \<open>
  C1 at a failing input. The client has been handed \<open>frob\<close>; its next poll has an empty
  body, which \<open>ReadResponse\<close> rejects. The poll is answered 400 Bad Request and the
  originator is handed the error, but the pending slot still holds the request. The
  poll after that, though its body is a well-formed response, finds the slot occupied
  and blocks handing a second value to the originator that has already returned; it
  keeps the mutex of the session, so the session answers no poll from then on.
\<close>

theorem drain_failure_keeps_pending:
  "PendingRequest (heap world_pending 0) = Some \<lparr>HTTP = frob, Response = 0\<rparr>
   \<and> snd (ServeHTTP lib0 empty_poll env0 world_pending)
       = (Answered 400 [(''X-Session'', [''id1''])] [], None)
   \<and> owner (chans (fst (ServeHTTP lib0 empty_poll env0 world_pending)) 0)
       = Returned \<lparr>Err = Some (LibError ''unexpected EOF''), HTTP = None\<rparr>
   \<and> PendingRequest (heap (fst (ServeHTTP lib0 empty_poll env0 world_pending)) 0)
       = Some \<lparr>HTTP = frob, Response = 0\<rparr>
   \<and> snd (ServeHTTP lib0 response_poll env0 (fst (ServeHTTP lib0 empty_poll env0 world_pending)))
       = (Blocked, None)
   \<and> handlerMu (heap (fst (ServeHTTP lib0 response_poll env0
                             (fst (ServeHTTP lib0 empty_poll env0 world_pending)))) 0)"
  by code_simp

section \<open>Properties of sessions\<close>

lemma nextChan_frame [simp]:
  "nextChan (set_session a s W) = nextChan W"
  "nextChan (set_owner c x W) = nextChan W"
  "nextChan (lock_and_arm a W) = nextChan W"
  "nextChan (unlock a out W) = nextChan W"
  "nextChan (sender_proceeds c W) = nextChan W"
  "nextChan (sender_panics c W) = nextChan W"
  by (simp_all add: set_session_def set_owner_def lock_and_arm_def unlock_def
      sender_proceeds_def sender_panics_def split: caller.splits)

lemma kept_refl [simp]: "kept W W"
  by (simp add: kept_def)

lemma kept_trans: "kept W W1 \<Longrightarrow> kept W1 W2 \<Longrightarrow> kept W W2"
  unfolding kept_def by (metis le_trans less_le_trans)

lemma kept_same:
  "chans W' = chans W \<Longrightarrow> nextChan W' = nextChan W \<Longrightarrow> kept W W'"
  by (simp add: kept_def)

lemma kept_cong:
  "chans W'' = chans W' \<Longrightarrow> nextChan W'' = nextChan W' \<Longrightarrow> kept W W' \<Longrightarrow> kept W W''"
  by (simp add: kept_def)

lemma kept_set_owner:
  "\<not> over (owner (chans W c)) \<Longrightarrow> kept W (set_owner c x W)"
  by (auto simp: kept_def)

lemma kept_send: "send c v W = Done W1 \<Longrightarrow> kept W W1"
  by (auto dest!: send_Done intro!: kept_set_owner simp: over_def)

lemma kept_close_chan: "close_chan c W = Done W1 \<Longrightarrow> kept W W1"
  by (auto simp: close_chan_def kept_def split: if_splits)

lemma kept_sender_proceeds: "kept W (sender_proceeds c W)"
  by (auto simp: sender_proceeds_def over_def intro!: kept_set_owner split: caller.splits)

lemma kept_sender_panics: "kept W (sender_panics c W)"
  by (auto simp: sender_panics_def over_def intro!: kept_set_owner split: caller.splits)

lemma kept_fold_sender_panics: "kept W (fold sender_panics cs W)"
proof (induction cs arbitrary: W)
  case Nil
  show ?case by simp
next
  case (Cons c cs)
  from kept_trans [OF kept_sender_panics Cons.IH] show ?case
    by simp
qed

lemma kept_drain:
  "drain L r a hdr W = Continue W4 \<Longrightarrow> kept W W4"
  "drain L r a hdr W = Stop W4 out \<Longrightarrow> kept W W4"
proof -
  assume "drain L r a hdr W = Continue W4"
  then show "kept W W4"
    by (auto simp: drain_def split: option.splits sum.splits blocking.splits
        intro: kept_cong [OF _ _ kept_trans [OF kept_send kept_close_chan]])
next
  assume "drain L r a hdr W = Stop W4 out"
  then show "kept W W4"
    by (auto simp: drain_def split: option.splits sum.splits blocking.splits
        intro: kept_send)
qed

lemma kept_rendezvous:
  assumes "rendezvous L timer a hdr W = (W5, out)"
  shows "kept W W5"
proof (cases "select_case timer (heap W a)")
  case TimerFired
  with assms show ?thesis by (simp add: rendezvous_TimerFired)
next
  case ChanClosed
  with assms show ?thesis by (simp add: rendezvous_ChanClosed)
next
  case (Received req)
  let ?W1 = "sender_proceeds (Response req)
               (set_session a ((heap W a)\<lparr>Requests := tl (Requests (heap W a))\<rparr>) W)"
  have k1: "kept W ?W1"
    by (rule kept_trans [OF kept_same kept_sender_proceeds]) simp_all
  from assms Received show ?thesis
    by (auto simp: rendezvous_def Let_def split: prod.splits option.splits blocking.splits
        intro: k1 kept_trans [OF k1 kept_send] kept_cong [OF _ _ k1])
qed

lemma bind_session_chans:
  "bind_session r new_id W = (sessionID, a, W2) \<Longrightarrow>
   chans W2 = chans W \<and> nextChan W2 = nextChan W"
  by (auto simp: bind_session_def Let_def split: option.splits)

lemma kept_ServeHTTP: "kept W (fst (ServeHTTP L r E W))"
proof -
  obtain sessionID a W2
    where b: "bind_session r (fresh E) (W\<lparr>server := init_once (server W)\<rparr>) = (sessionID, a, W2)"
    by (cases "bind_session r (fresh E) (W\<lparr>server := init_once (server W)\<rparr>)")
  from bind_session_chans [OF b]
  have c2: "chans W2 = chans W" "nextChan W2 = nextChan W"
    by simp_all
  then have k2: "kept W W2" and k3: "kept W (lock_and_arm a W2)"
    by (simp_all add: kept_same)
  let ?hdr = "Header_Add [] ''X-Session'' sessionID"
  show ?thesis
  proof (cases "handlerMu (heap W2 a)")
    case True
    with k2 show ?thesis by (simp add: ServeHTTP_unfold [OF b])
  next
    case False
    show ?thesis
    proof (cases "drain L r a ?hdr (lock_and_arm a W2)")
      case (Stop W4 out)
      from kept_trans [OF k3 kept_drain(2) [OF Stop]] have "kept W (unlock a out W4)"
        by (rule kept_cong [rotated 2]) simp_all
      with False Stop show ?thesis
        by (simp add: ServeHTTP_unfold [OF b])
    next
      case (Continue W4)
      from kept_trans [OF k3 kept_drain(1) [OF Continue]] have k4: "kept W W4" .
      show ?thesis
      proof (cases "resolve_timeout L (server W4) r ?hdr")
        case (Inl hdr1)
        from k4 have "kept W (unlock a (Answered StatusBadRequest hdr1 []) W4)"
          by (rule kept_cong [rotated 2]) simp_all
        with False Continue Inl show ?thesis
          by (simp add: ServeHTTP_unfold [OF b])
      next
        case (Inr p)
        obtain hdr1 t where p: "p = (hdr1, t)"
          by (cases p)
        obtain W5 out where rv: "rendezvous L (timer_first E) a hdr1 W4 = (W5, out)"
          by (cases "rendezvous L (timer_first E) a hdr1 W4")
        from kept_trans [OF k4 kept_rendezvous [OF rv]] have "kept W (unlock a out W5)"
          by (rule kept_cong [rotated 2]) simp_all
        with False Continue Inr p rv show ?thesis
          by (simp add: ServeHTTP_unfold [OF b])
      qed
    qed
  qed
qed

lemma kept_RoundTrip: "kept W (snd (RoundTrip a r W))"
  by (auto simp: RoundTrip_def Let_def kept_def set_owner_def set_session_def)

lemma kept_Close: "Close a W = Inr W' \<Longrightarrow> kept W W'"
  by (auto simp: Close_def Let_def split: if_splits
      intro!: kept_trans [OF _ kept_fold_sender_panics] kept_same)

lemma kept_closer_fires: "closer_fires sessionID W = Inr W' \<Longrightarrow> kept W W'"
  by (auto simp: closer_fires_def split: option.splits sum.splits
      dest!: kept_Close elim!: kept_cong [rotated 2])

lemma kept_step: "step L ev W = Inr W' \<Longrightarrow> kept W W'"
  by (cases ev) (auto simp: step_def kept_ServeHTTP kept_RoundTrip kept_Close kept_closer_fires)

lemma kept_run: "run L evs W = Inr W' \<Longrightarrow> kept W W'"
proof (induction evs arbitrary: W)
  case Nil
  then show ?case by simp
next
  case (Cons ev evs)
  then show ?case
    by (auto split: sum.splits intro: kept_trans [OF kept_step])
qed

lemma heap_fold_sender_panics [simp]: "heap (fold sender_panics cs W) = heap W"
  by (induction cs arbitrary: W) (simp_all add: sender_panics_def split: caller.splits)

lemma server_fold_sender_panics [simp]: "server (fold sender_panics cs W) = server W"
  by (induction cs arbitrary: W) (simp_all add: sender_panics_def split: caller.splits)

lemma Close_open:
  assumes "\<not> closed (heap W a)" and "\<not> Requests_closed (heap W a)"
  shows "\<exists>W'. Close a W = Inr W'
     \<and> heap W' a = (heap W a)\<lparr>closed := True, Requests_closed := True, Requests := []\<rparr>"
  using assms by (simp add: Close_def Let_def)

lemma RoundTrip_closed:
  "closed (heap W a) \<Longrightarrow> RoundTrip a r W = (Returns None (Some ErrSessionClosed), W)"
  by (simp add: RoundTrip_def)

text \<open>
  C3, as the code has it. \<open>Close\<close> on an open session fires the closed signal and closes
  \<open>Requests\<close>. In the world it leaves, every \<open>RoundTrip\<close> on the session returns
  \<open>ErrSessionClosed\<close> at once and changes nothing, and a handler that takes from
  \<open>Requests\<close> observes the channel closed and answers 410 Gone. \<open>Close\<close> is not
  idempotent: called again it panics, closing the closed channel.
\<close>

theorem Close_effect:
  assumes "\<not> closed (heap W a)" and "\<not> Requests_closed (heap W a)"
  shows "\<exists>W'. Close a W = Inr W'
     \<and> closed (heap W' a) \<and> Requests_closed (heap W' a)
     \<and> (\<forall>r. RoundTrip a r W' = (Returns None (Some ErrSessionClosed), W'))
     \<and> (\<forall>L hdr. rendezvous L False a hdr W' = (W', Answered StatusGone hdr []))
     \<and> Close a W' = Inl ''close of closed channel''"
proof -
  from Close_open [OF assms] obtain W' where c: "Close a W = Inr W'"
    and h: "heap W' a = (heap W a)\<lparr>closed := True, Requests_closed := True, Requests := []\<rparr>"
    by blast
  have cl: "closed (heap W' a)" "Requests_closed (heap W' a)"
    by (simp_all add: h)
  have sel: "select_case False (heap W' a) = ChanClosed"
    by (simp add: select_case_def h)
  have again: "Close a W' = Inl ''close of closed channel''"
    using cl by (simp add: Close_def)
  from c cl again RoundTrip_closed [OF cl(1)] rendezvous_ChanClosed [OF sel] show ?thesis
    by blast
qed

theorem Close_effect_witness:
  "\<not> closed (heap world1 0) \<and> \<not> Requests_closed (heap world1 0)
   \<and> (case Close 0 world1 of
         Inl p \<Rightarrow> False
       | Inr W' \<Rightarrow>
           closed (heap W' 0)
           \<and> fst (RoundTrip 0 frob W') = Returns None (Some ErrSessionClosed)
           \<and> snd (rendezvous lib0 False 0 [] W') = Answered 410 [] []
           \<and> the_panic (Close 0 W') = Some ''close of closed channel'')"
proof -
  have o: "\<not> closed (heap world1 0)" "\<not> Requests_closed (heap world1 0)"
    by code_simp+
  from Close_effect [OF o] obtain W' where c: "Close 0 world1 = Inr W'"
    and p: "closed (heap W' 0)"
      "\<forall>r. RoundTrip 0 r W' = (Returns None (Some ErrSessionClosed), W')"
      "\<forall>L hdr. rendezvous L False 0 hdr W' = (W', Answered StatusGone hdr [])"
      "Close 0 W' = Inl ''close of closed channel''"
    by blast
  from o c p show ?thesis
    by (simp add: StatusGone_def the_panic_def)
qed

text \<open>
  A second \<open>Close\<close> does not leave the session as it is: it panics. So does the idle
  timer of a session that was closed by hand, since it calls \<open>Close\<close> on the session it
  finds in the table, and the run ends there.
\<close>

theorem second_Close_counterexample:
  "(case Close 0 world1 of
      Inl p \<Rightarrow> False
    | Inr W' \<Rightarrow> the_panic (Close 0 W') = Some ''close of closed channel'')
   \<and> the_panic (run lib0 [CloseSession 0, IdleTimer ''id1''] world1)
       = Some ''close of closed channel''"
  by code_simp

lemma RoundTrip_open:
  assumes "\<not> closed (heap W a)" and "\<not> Requests_closed (heap W a)"
  shows "fst (RoundTrip a r W) = Waits (nextChan W)
     \<and> Requests (heap (snd (RoundTrip a r W)) a)
         = Requests (heap W a) @ [\<lparr>HTTP = r, Response = nextChan W\<rparr>]
     \<and> owner (chans (snd (RoundTrip a r W)) (nextChan W)) = Sending"
  using assms by (simp add: RoundTrip_def Let_def)

lemma RoundTrip_result_kept:
  assumes "kept W W'" and "c < nextChan W" and "RoundTrip_result W c = Some res"
  shows "RoundTrip_result W' c = Some res"
proof -
  from assms(3) have "over (owner (chans W c))"
    by (auto simp: RoundTrip_result_def over_def split: caller.splits)
  with assms(1,2) have "owner (chans W' c) = owner (chans W c)"
    by (simp add: kept_def)
  with assms(3) show ?thesis
    by (simp add: RoundTrip_result_def)
qed

lemma result_fold_sender_panics:
  "RoundTrip_result (fold sender_panics cs W) c = RoundTrip_result W c"
proof (induction cs arbitrary: W)
  case Nil
  show ?case by simp
next
  case (Cons x cs)
  have "RoundTrip_result (sender_panics x W) c = RoundTrip_result W c"
    by (auto simp: sender_panics_def RoundTrip_result_def split: caller.splits)
  with Cons.IH [of "sender_panics x W"] show ?case
    by simp
qed

lemma result_Close:
  "Close a W = Inr W' \<Longrightarrow> RoundTrip_result W' c = RoundTrip_result W c"
  by (auto simp: Close_def Let_def result_fold_sender_panics split: if_splits)
     (simp add: RoundTrip_result_def)

lemma bind_session_known:
  assumes "sessions (server W) (Header_Get (ReqHeader r) ''X-Session'') = Some a"
  shows "bind_session r (fresh E) (W\<lparr>server := init_once (server W)\<rparr>)
     = (Header_Get (ReqHeader r) ''X-Session'', a, W\<lparr>server := init_once (server W)\<rparr>)"
  using assms by (simp add: bind_session_def init_once_def)

lemma drain_delivers:
  assumes p: "PendingRequest (heap W a) = Some q"
    and o: "owner (chans W (Response q)) = Receiving"
    and n: "\<not> chan_closed (chans W (Response q))"
  shows "case ReadResponse L (body_bytes r) (HTTP q) of
      Inl err \<Rightarrow>
        (\<exists>W1. drain L r a hdr W = Stop W1 (Answered StatusBadRequest hdr [])
           \<and> nextChan W1 = nextChan W
           \<and> owner (chans W1 (Response q)) = Returned \<lparr>Err = Some err, HTTP = None\<rparr>)
    | Inr resp \<Rightarrow>
        (\<exists>W4. drain L r a hdr W = Continue W4
           \<and> nextChan W4 = nextChan W
           \<and> owner (chans W4 (Response q)) = Returned \<lparr>Err = None, HTTP = Some resp\<rparr>)"
  using p o n
  by (simp add: drain_def send_def close_chan_def set_owner_def set_session_def
      split: sum.splits)

lemma kept_after_drain:
  assumes b: "bind_session r (fresh E) (W\<lparr>server := init_once (server W)\<rparr>) = (sessionID, a, W2)"
    and nl: "\<not> handlerMu (heap W2 a)"
    and d: "drain L r a (Header_Add [] ''X-Session'' sessionID) (lock_and_arm a W2) = Continue W4"
  shows "kept W4 (fst (ServeHTTP L r E W))"
proof (cases "resolve_timeout L (server W4) r (Header_Add [] ''X-Session'' sessionID)")
  case (Inl hdr1)
  have "kept W4 (unlock a (Answered StatusBadRequest hdr1 []) W4)"
    by (rule kept_same) simp_all
  with nl d Inl show ?thesis
    by (simp add: ServeHTTP_unfold [OF b])
next
  case (Inr p)
  obtain hdr1 t where p: "p = (hdr1, t)"
    by (cases p)
  obtain W5 out where rv: "rendezvous L (timer_first E) a hdr1 W4 = (W5, out)"
    by (cases "rendezvous L (timer_first E) a hdr1 W4")
  from kept_rendezvous [OF rv] have "kept W4 (unlock a out W5)"
    by (rule kept_cong [rotated 2]) simp_all
  with nl d Inr p rv show ?thesis
    by (simp add: ServeHTTP_unfold [OF b])
qed

lemma ServeHTTP_delivers:
  assumes k: "sessions (server W) (Header_Get (ReqHeader r) ''X-Session'') = Some a"
    and nl: "\<not> handlerMu (heap W a)"
    and p: "PendingRequest (heap W a) = Some q"
    and a: "Response q < nextChan W"
    and o: "owner (chans W (Response q)) = Receiving"
    and n: "\<not> chan_closed (chans W (Response q))"
  shows "RoundTrip_result (fst (ServeHTTP L r E W)) (Response q) =
     Some (case ReadResponse L (body_bytes r) (HTTP q) of
             Inl err \<Rightarrow> (None, Some err)
           | Inr resp \<Rightarrow> (Some resp, None))"
proof -
  let ?W1 = "W\<lparr>server := init_once (server W)\<rparr>"
  let ?id = "Header_Get (ReqHeader r) ''X-Session''"
  let ?hdr = "Header_Add [] ''X-Session'' ?id"
  note b = bind_session_known [OF k, of E]
  have nl1: "\<not> handlerMu (heap ?W1 a)"
    using nl by simp
  have p3: "PendingRequest (heap (lock_and_arm a ?W1) a) = Some q"
    and o3: "owner (chans (lock_and_arm a ?W1) (Response q)) = Receiving"
    and n3: "\<not> chan_closed (chans (lock_and_arm a ?W1) (Response q))"
    and a3: "nextChan (lock_and_arm a ?W1) = nextChan W"
    using p o n by simp_all
  note D = drain_delivers [OF p3 o3 n3, of L r ?hdr]
  show ?thesis
  proof (cases "ReadResponse L (body_bytes r) (HTTP q)")
    case (Inl err)
    with D obtain W1'
      where d: "drain L r a ?hdr (lock_and_arm a ?W1) = Stop W1' (Answered StatusBadRequest ?hdr [])"
        and r: "owner (chans W1' (Response q)) = Returned \<lparr>Err = Some err, HTTP = None\<rparr>"
      by auto
    from nl1 d have "fst (ServeHTTP L r E W) = unlock a (Answered StatusBadRequest ?hdr []) W1'"
      by (simp add: ServeHTTP_unfold [OF b])
    with r Inl show ?thesis
      by (simp add: RoundTrip_result_def)
  next
    case (Inr resp)
    with D obtain W4
      where d: "drain L r a ?hdr (lock_and_arm a ?W1) = Continue W4"
        and c: "nextChan W4 = nextChan (lock_and_arm a ?W1)"
        and r: "owner (chans W4 (Response q)) = Returned \<lparr>Err = None, HTTP = Some resp\<rparr>"
      by auto
    have "RoundTrip_result W4 (Response q) = Some (Some resp, None)"
      using r by (simp add: RoundTrip_result_def)
    from RoundTrip_result_kept [OF kept_after_drain [OF b nl1 d] _ this] a c a3 Inr
    show ?thesis
      by simp
  qed
qed

lemma owner_fold_sender_panics_over:
  "over (owner (chans W c)) \<Longrightarrow>
   owner (chans (fold sender_panics cs W) c) = owner (chans W c)"
proof (induction cs arbitrary: W)
  case Nil
  show ?case by simp
next
  case (Cons x cs)
  have e: "owner (chans (sender_panics x W) c) = owner (chans W c)"
    using Cons.prems by (auto simp: sender_panics_def over_def split: caller.splits)
  with Cons.prems have "over (owner (chans (sender_panics x W) c))"
    by simp
  from Cons.IH [OF this] e show ?case
    by simp
qed

lemma fold_sender_panics_Sending:
  "c \<in> set cs \<Longrightarrow> owner (chans W c) = Sending \<Longrightarrow>
   owner (chans (fold sender_panics cs W) c) = Panicked"
proof (induction cs arbitrary: W)
  case Nil
  then show ?case by simp
next
  case (Cons x cs)
  show ?case
  proof (cases "x = c")
    case True
    with Cons.prems have p: "owner (chans (sender_panics x W) c) = Panicked"
      by (simp add: sender_panics_def)
    then have "over (owner (chans (sender_panics x W) c))"
      by (simp add: over_def)
    from owner_fold_sender_panics_over [OF this] p show ?thesis
      by simp
  next
    case False
    with Cons.prems have m: "c \<in> set cs"
      and o: "owner (chans (sender_panics x W) c) = Sending"
      by (auto simp: sender_panics_def split: caller.splits)
    from Cons.IH [OF m o] show ?thesis
      by simp
  qed
qed

lemma Close_panics_blocked:
  assumes "\<not> closed (heap W a)" and "\<not> Requests_closed (heap W a)"
    and "q \<in> set (Requests (heap W a))" and "owner (chans W (Response q)) = Sending"
  shows "\<exists>W1. Close a W = Inr W1
     \<and> owner (chans W1 (Response q)) = Panicked
     \<and> RoundTrip_result W1 (Response q) = None"
proof -
  let ?W0 = "set_session a ((heap W a)\<lparr>closed := True, Requests_closed := True, Requests := []\<rparr>) W"
  have m: "Response q \<in> set (map Response (Requests (heap W a)))"
    using assms(3) by simp
  have o: "owner (chans ?W0 (Response q)) = Sending"
    using assms(4) by simp
  from fold_sender_panics_Sending [OF m o]
  have "owner (chans (fold sender_panics (map Response (Requests (heap W a))) ?W0) (Response q))
      = Panicked" .
  with assms(1,2) show ?thesis
    by (simp add: Close_def Let_def RoundTrip_result_def)
qed

lemma Submit_then_Close_panics:
  assumes "\<not> closed (heap W a)" and "\<not> Requests_closed (heap W a)"
  shows "\<exists>W1. Close a (snd (RoundTrip a r W)) = Inr W1
     \<and> owner (chans W1 (nextChan W)) = Panicked
     \<and> RoundTrip_result W1 (nextChan W) = None"
proof -
  let ?W = "snd (RoundTrip a r W)"
  let ?q = "\<lparr>HTTP = r, Response = nextChan W\<rparr>"
  from RoundTrip_open [OF assms, of r]
  have q: "?q \<in> set (Requests (heap ?W a))"
    and o: "owner (chans ?W (Response ?q)) = Sending"
    by simp_all
  have c: "\<not> closed (heap ?W a)" "\<not> Requests_closed (heap ?W a)"
    using assms by (simp_all add: RoundTrip_def Let_def)
  from Close_panics_blocked [OF c q o] show ?thesis
    by simp
qed

text \<open>
  C2, as the code has it. A \<open>RoundTrip\<close> on a closed session returns \<open>ErrSessionClosed\<close>
  at once and changes nothing. On an open session it makes its reply channel and blocks
  in the hand-off. The reply of a request that is pending, with its originator waiting,
  is delivered by the next poll of the session: the decoded response, or the decoding
  error. A call that is over, returned or panicked, stays as it is through every run of
  the server, so a reply is delivered at most once and a result never changes. \<open>Close\<close>
  delivers nothing: the results of all calls are after it what they were before. A
  call that is blocked in the hand-off of a session when the session is closed panics
  instead of returning: that holds of every request in the queue of the session whose
  originator is sending, and so of a \<open>RoundTrip\<close> followed by \<open>Close\<close>.
\<close>

theorem RoundTrip_reply:
  "(closed (heap W a) \<longrightarrow> RoundTrip a r W = (Returns None (Some ErrSessionClosed), W))
   \<and> (\<not> closed (heap W a) \<and> \<not> Requests_closed (heap W a) \<longrightarrow>
        fst (RoundTrip a r W) = Waits (nextChan W)
        \<and> Requests (heap (snd (RoundTrip a r W)) a)
            = Requests (heap W a) @ [\<lparr>HTTP = r, Response = nextChan W\<rparr>]
        \<and> owner (chans (snd (RoundTrip a r W)) (nextChan W)) = Sending)
   \<and> (sessions (server W) (Header_Get (ReqHeader poll) ''X-Session'') = Some a
        \<and> \<not> handlerMu (heap W a)
        \<and> PendingRequest (heap W a) = Some q
        \<and> Response q < nextChan W
        \<and> owner (chans W (Response q)) = Receiving
        \<and> \<not> chan_closed (chans W (Response q)) \<longrightarrow>
        RoundTrip_result (fst (ServeHTTP L poll E W)) (Response q) =
          Some (case ReadResponse L (body_bytes poll) (HTTP q) of
                  Inl err \<Rightarrow> (None, Some err)
                | Inr resp \<Rightarrow> (Some resp, None)))
   \<and> (run L evs W = Inr W' \<and> c < nextChan W \<and> over (owner (chans W c)) \<longrightarrow>
        owner (chans W' c) = owner (chans W c)
        \<and> RoundTrip_result W' c = RoundTrip_result W c)
   \<and> (Close a W = Inr W'' \<longrightarrow> RoundTrip_result W'' c = RoundTrip_result W c)
   \<and> (\<not> closed (heap W a) \<and> \<not> Requests_closed (heap W a)
        \<and> q' \<in> set (Requests (heap W a)) \<and> owner (chans W (Response q')) = Sending \<longrightarrow>
        (\<exists>W1. Close a W = Inr W1
           \<and> owner (chans W1 (Response q')) = Panicked
           \<and> RoundTrip_result W1 (Response q') = None))
   \<and> (\<not> closed (heap W a) \<and> \<not> Requests_closed (heap W a) \<longrightarrow>
        (\<exists>W1. Close a (snd (RoundTrip a r W)) = Inr W1
           \<and> owner (chans W1 (nextChan W)) = Panicked
           \<and> RoundTrip_result W1 (nextChan W) = None))"
proof -
  have "run L evs W = Inr W' \<and> c < nextChan W \<and> over (owner (chans W c)) \<longrightarrow>
        owner (chans W' c) = owner (chans W c)
        \<and> RoundTrip_result W' c = RoundTrip_result W c"
  proof (intro impI)
    assume h: "run L evs W = Inr W' \<and> c < nextChan W \<and> over (owner (chans W c))"
    with kept_run [of L evs W W'] have "owner (chans W' c) = owner (chans W c)"
      by (simp add: kept_def)
    then show "owner (chans W' c) = owner (chans W c)
        \<and> RoundTrip_result W' c = RoundTrip_result W c"
      by (simp add: RoundTrip_result_def)
  qed
  moreover have "\<not> closed (heap W a) \<and> \<not> Requests_closed (heap W a)
        \<and> q' \<in> set (Requests (heap W a)) \<and> owner (chans W (Response q')) = Sending \<longrightarrow>
        (\<exists>W1. Close a W = Inr W1
           \<and> owner (chans W1 (Response q')) = Panicked
           \<and> RoundTrip_result W1 (Response q') = None)"
    using Close_panics_blocked [of W a q'] by blast
  moreover have "\<not> closed (heap W a) \<and> \<not> Requests_closed (heap W a) \<longrightarrow>
        (\<exists>W1. Close a (snd (RoundTrip a r W)) = Inr W1
           \<and> owner (chans W1 (nextChan W)) = Panicked
           \<and> RoundTrip_result W1 (nextChan W) = None)"
    using Submit_then_Close_panics [of W a r] by blast
  moreover have "closed (heap W a) \<longrightarrow> RoundTrip a r W = (Returns None (Some ErrSessionClosed), W)"
    using RoundTrip_closed [of W a r] by blast
  moreover have "\<not> closed (heap W a) \<and> \<not> Requests_closed (heap W a) \<longrightarrow>
        fst (RoundTrip a r W) = Waits (nextChan W)
        \<and> Requests (heap (snd (RoundTrip a r W)) a)
            = Requests (heap W a) @ [\<lparr>HTTP = r, Response = nextChan W\<rparr>]
        \<and> owner (chans (snd (RoundTrip a r W)) (nextChan W)) = Sending"
    using RoundTrip_open [of W a r] by blast
  moreover have "sessions (server W) (Header_Get (ReqHeader poll) ''X-Session'') = Some a
        \<and> \<not> handlerMu (heap W a)
        \<and> PendingRequest (heap W a) = Some q
        \<and> Response q < nextChan W
        \<and> owner (chans W (Response q)) = Receiving
        \<and> \<not> chan_closed (chans W (Response q)) \<longrightarrow>
        RoundTrip_result (fst (ServeHTTP L poll E W)) (Response q) =
          Some (case ReadResponse L (body_bytes poll) (HTTP q) of
                  Inl err \<Rightarrow> (None, Some err)
                | Inr resp \<Rightarrow> (Some resp, None))"
    using ServeHTTP_delivers [of W poll a q L E] by blast
  moreover have "Close a W = Inr W'' \<longrightarrow> RoundTrip_result W'' c = RoundTrip_result W c"
    using result_Close [of a W W'' c] by blast
  ultimately show ?thesis
    by blast
qed

text \<open>
  The originator of \<open>frob\<close>: its call blocks on channel 0; a poll hands the request to
  the client; the next poll, with the response in its body, delivers the decoded
  response, and nothing in a run after that changes what the call returned. Had the
  session been closed while the call was blocked in the hand-off, the call would have
  panicked.
\<close>

theorem RoundTrip_reply_witness:
  "fst (RoundTrip 0 frob world1) = Waits 0
   \<and> RoundTrip_result (fst (ServeHTTP lib0 response_poll env0 world_pending)) 0
       = Some (Some \<lparr>StatusCode = 200, Status = ''200 OK'', RespHeader = [],
                     RespBody = ''asdf''\<rparr>, None)
   \<and> (case run lib0 [Poll empty_poll env0, CloseSession 0, Poll empty_poll env0]
              (fst (ServeHTTP lib0 response_poll env0 world_pending)) of
         Inl p \<Rightarrow> False
       | Inr W' \<Rightarrow>
           RoundTrip_result W' 0
             = RoundTrip_result (fst (ServeHTTP lib0 response_poll env0 world_pending)) 0)
   \<and> (case Close 0 (snd (RoundTrip 0 frob world1)) of
         Inl p \<Rightarrow> False
       | Inr W1 \<Rightarrow> owner (chans W1 0) = Panicked \<and> RoundTrip_result W1 0 = None)"
proof -
  let ?W = "fst (ServeHTTP lib0 response_poll env0 world_pending)"
  let ?evs = "[Poll empty_poll env0, CloseSession 0, Poll empty_poll env0]"
  have o: "\<not> closed (heap world1 0) \<and> \<not> Requests_closed (heap world1 0)"
    by code_simp
  have n: "nextChan world1 = 0"
    by code_simp
  from RoundTrip_reply [of world1 0 frob] o n
  have a: "fst (RoundTrip 0 frob world1) = Waits 0"
    by simp
  have h: "sessions (server world_pending) (Header_Get (ReqHeader response_poll) ''X-Session'') = Some 0
        \<and> \<not> handlerMu (heap world_pending 0)
        \<and> PendingRequest (heap world_pending 0) = Some \<lparr>HTTP = frob, Response = 0\<rparr>
        \<and> Response \<lparr>HTTP = frob, Response = 0\<rparr> < nextChan world_pending
        \<and> owner (chans world_pending (Response \<lparr>HTTP = frob, Response = 0\<rparr>)) = Receiving
        \<and> \<not> chan_closed (chans world_pending (Response \<lparr>HTTP = frob, Response = 0\<rparr>))"
    by code_simp
  have rr: "ReadResponse lib0 (body_bytes response_poll) frob
      = Inr \<lparr>StatusCode = 200, Status = ''200 OK'', RespHeader = [],
             RespBody = ''asdf''\<rparr>"
    by code_simp
  from RoundTrip_reply [of world_pending 0 _ response_poll "\<lparr>HTTP = frob, Response = 0\<rparr>" lib0 env0] h rr
  have b: "RoundTrip_result ?W 0
       = Some (Some \<lparr>StatusCode = 200, Status = ''200 OK'', RespHeader = [],
                     RespBody = ''asdf''\<rparr>, None)"
    by simp
  have ok: "\<not> isl (run lib0 ?evs ?W)"
    by code_simp
  then obtain W' where rn: "run lib0 ?evs ?W = Inr W'"
    by (cases "run lib0 ?evs ?W") simp_all
  have c: "0 < nextChan ?W \<and> over (owner (chans ?W 0))"
    by code_simp
  from RoundTrip_reply [of ?W 0 _ _ _ lib0 _ ?evs W' 0] rn c
  have d: "RoundTrip_result W' 0 = RoundTrip_result ?W 0"
    by blast
  from RoundTrip_reply [of world1 0 frob] o n
  have "\<exists>W1. Close 0 (snd (RoundTrip 0 frob world1)) = Inr W1
      \<and> owner (chans W1 0) = Panicked \<and> RoundTrip_result W1 0 = None"
    by simp
  then obtain W1 where "Close 0 (snd (RoundTrip 0 frob world1)) = Inr W1"
    and "owner (chans W1 0) = Panicked" and "RoundTrip_result W1 0 = None"
    by blast
  with a b d rn show ?thesis
    by simp
qed

text \<open>
  Closure is not a delivery. The originator of \<open>frob\<close> is blocked in the hand-off when
  the session is closed: its send panics, the call never returns a response or an
  error, and the polls that follow are answered 410 without changing that.
\<close>

theorem closure_delivers_nothing_counterexample:
  "fst (RoundTrip 0 frob world1) = Waits 0
   \<and> (case run lib0 [CloseSession 0, Poll empty_poll env0, Poll response_poll env0] world_frob of
         Inl p \<Rightarrow> False
       | Inr W' \<Rightarrow> owner (chans W' 0) = Panicked \<and> RoundTrip_result W' 0 = None)
   \<and> (case Close 0 world_frob of
         Inl p \<Rightarrow> False
       | Inr W' \<Rightarrow>
           fst (snd (ServeHTTP lib0 empty_poll env0 W')) = Answered 410 [(''X-Session'', [''id1''])] [])"
  by code_simp

end
